theory Spec2Isabelle
  imports Complex_Main "HOL-Library.Word"
begin

unbundle bit_operations_syntax

section \<open>Data model of PixelArtProcessor\<close>

text \<open>
  A \<open>cv::Vec3b\<close> is three unsigned 8-bit channels in the order B, G, R
  (index 0, 1, 2).
\<close>

type_synonym uchar = "8 word"
type_synonym Vec3b = "uchar \<times> uchar \<times> uchar"

definition ch0 :: "Vec3b \<Rightarrow> uchar" where
  "ch0 p = fst p"

definition ch1 :: "Vec3b \<Rightarrow> uchar" where
  "ch1 p = fst (snd p)"

definition ch2 :: "Vec3b \<Rightarrow> uchar" where
  "ch2 p = snd (snd p)"

text \<open>
  The element type of a \<open>cv::Mat\<close>: its depth and its number of channels.
  \<open>CV_8UC3\<close> is depth \<open>CV_8U\<close> with three channels.
\<close>

datatype MatDepth = CV_8U | CV_8S | CV_16U | CV_16S | CV_32S | CV_32F | CV_64F

text \<open>
  A \<open>cv::Mat\<close>: the header (rows, cols, element type) and the pixel rows, as
  \<open>ptr<cv::Vec3b>(y)\<close> hands them out. The payload is only read when the element
  type is \<open>CV_8UC3\<close>. Dimensions are \<open>int\<close> in the source and never negative;
  they are natural numbers here, and arithmetic on them is not wrapped (an image
  whose pixel count leaves the range of \<open>int\<close> is outside the model).
\<close>

record Mat =
  rows :: nat
  cols :: nat
  depth :: MatDepth
  channels :: nat
  rowdata :: "Vec3b list list"

definition wf_Mat :: "Mat \<Rightarrow> bool" where
  "wf_Mat m \<longleftrightarrow> length (rowdata m) = rows m \<and> (\<forall>r \<in> set (rowdata m). length r = cols m)"

text \<open>The default-constructed matrix, returned by \<open>return {}\<close>.\<close>

definition Mat_null :: Mat where
  "Mat_null = \<lparr>rows = 0, cols = 0, depth = CV_8U, channels = 1, rowdata = []\<rparr>"

definition empty_Mat :: "Mat \<Rightarrow> bool" where
  "empty_Mat m \<longleftrightarrow> rows m = 0 \<or> cols m = 0"

definition is_8UC3 :: "Mat \<Rightarrow> bool" where
  "is_8UC3 m \<longleftrightarrow> depth m = CV_8U \<and> channels m = 3"

definition at_Vec3b :: "Mat \<Rightarrow> nat \<Rightarrow> nat \<Rightarrow> Vec3b" where
  "at_Vec3b m y x = rowdata m ! y ! x"

datatype PalettePreset =
  Custom | NES | GameBoy | GameBoyPocket | Pico8 | CGA | EGA | Commodore64

record Params =
  blockSize :: int
  paletteSize :: int
  preBlur :: bool
  edgeEnhance :: bool
  dither :: bool
  outline :: bool
  outlineThickness :: int
  palettePreset :: PalettePreset

section \<open>Helpers of the anonymous namespace\<close>

definition ClampInt :: "int \<Rightarrow> int \<Rightarrow> int \<Rightarrow> int" where
  "ClampInt v lo hi = max lo (min v hi)"

text \<open>
  \<open>ColorDistanceSquared\<close> works in \<open>float\<close>. Its operands are differences of
  8-bit values, so every intermediate value is an integer below \<open>2^24\<close> and the
  float arithmetic is exact: the result is modelled as an integer.
\<close>

definition ColorDistanceSquared :: "Vec3b \<Rightarrow> Vec3b \<Rightarrow> int" where
  "ColorDistanceSquared a b =
     (let dr = uint (ch2 a) - uint (ch2 b);
          dg = uint (ch1 a) - uint (ch1 b);
          db = uint (ch0 a) - uint (ch0 b)
      in dr * dr + dg * dg + db * db)"

text \<open>\<open>std::numeric_limits<float>::max()\<close>, an integer.\<close>

definition FLT_MAX :: int where
  "FLT_MAX = 2 ^ 128 - 2 ^ 104"

section \<open>Fixed palettes\<close>

definition GetPaletteColors :: "PalettePreset \<Rightarrow> Vec3b list" where
  "GetPaletteColors preset = (case preset of
     NES \<Rightarrow>
      [(124, 124, 124), (0, 0, 252), (0, 0, 188), (68, 40, 188),
       (148, 0, 132), (168, 0, 32), (168, 16, 0), (136, 20, 0),
       (80, 48, 0), (0, 120, 0), (0, 104, 0), (0, 88, 0),
       (0, 64, 88), (0, 0, 0), (0, 0, 0), (188, 188, 188),
       (0, 120, 248), (0, 88, 248), (104, 68, 252), (216, 0, 204),
       (228, 0, 88), (248, 56, 0), (228, 92, 16), (172, 124, 0),
       (0, 184, 0), (0, 168, 0), (0, 168, 68), (0, 136, 136),
       (248, 248, 248), (60, 188, 252), (104, 136, 252), (152, 120, 248),
       (248, 120, 248), (248, 88, 152), (248, 120, 88), (252, 160, 68),
       (248, 184, 0), (184, 248, 24), (88, 216, 84), (88, 248, 152),
       (0, 232, 216), (120, 120, 120), (252, 252, 252), (164, 228, 252),
       (184, 184, 248), (216, 184, 248), (248, 184, 248), (248, 164, 192),
       (240, 208, 176), (252, 224, 168), (248, 216, 120), (216, 248, 120),
       (184, 248, 184), (184, 248, 216), (0, 252, 252), (248, 216, 248)]
   | GameBoy \<Rightarrow>
      [(15, 56, 15), (48, 98, 48), (139, 172, 15), (155, 188, 15)]
   | GameBoyPocket \<Rightarrow>
      [(15, 15, 15), (79, 79, 79), (163, 163, 163), (255, 255, 255)]
   | Pico8 \<Rightarrow>
      [(0, 0, 0), (29, 43, 83), (126, 37, 83), (0, 135, 81),
       (171, 82, 54), (95, 87, 79), (194, 195, 199), (255, 241, 232),
       (255, 0, 77), (255, 163, 0), (255, 236, 39), (0, 228, 54),
       (41, 173, 255), (131, 118, 156), (255, 119, 168), (255, 204, 170)]
   | CGA \<Rightarrow>
      [(0, 0, 0), (85, 255, 255), (255, 85, 255), (255, 255, 255)]
   | EGA \<Rightarrow>
      [(0, 0, 0), (0, 0, 170), (0, 170, 0), (0, 170, 170),
       (170, 0, 0), (170, 0, 170), (170, 85, 0), (170, 170, 170),
       (85, 85, 85), (85, 85, 255), (85, 255, 85), (85, 255, 255),
       (255, 85, 85), (255, 85, 255), (255, 255, 85), (255, 255, 255)]
   | Commodore64 \<Rightarrow>
      [(0, 0, 0), (255, 255, 255), (136, 0, 0), (170, 255, 238),
       (204, 68, 204), (0, 204, 85), (0, 0, 170), (238, 238, 119),
       (221, 136, 85), (102, 68, 0), (255, 119, 119), (51, 51, 51),
       (119, 119, 119), (170, 255, 102), (0, 136, 255), (187, 187, 187)]
   | Custom \<Rightarrow> [])"

section \<open>Nearest palette colour\<close>

text \<open>
  The linear scan that \<open>FindNearestPaletteColor\<close> and \<open>QuantizeWithFixedPalette\<close>
  both contain: the state is \<open>(minDist, bestIdx)\<close>, updated on a strictly smaller
  distance only.
\<close>

definition NearestStep :: "Vec3b \<Rightarrow> Vec3b list \<Rightarrow> nat \<Rightarrow> int \<times> nat \<Rightarrow> int \<times> nat" where
  "NearestStep color palette i s =
     (let dist = ColorDistanceSquared color (palette ! i)
      in if dist < fst s then (dist, i) else s)"

definition NearestPrefix :: "Vec3b \<Rightarrow> Vec3b list \<Rightarrow> nat \<Rightarrow> int \<times> nat" where
  \<comment> \<open>the state of the loop after its first \<open>n\<close> iterations\<close>
  "NearestPrefix color palette n = fold (NearestStep color palette) [0..<n] (FLT_MAX, 0)"

definition NearestScan :: "Vec3b \<Rightarrow> Vec3b list \<Rightarrow> int \<times> nat" where
  "NearestScan color palette = NearestPrefix color palette (length palette)"

definition FindNearestPaletteColor :: "Vec3b \<Rightarrow> Vec3b list \<Rightarrow> Vec3b" where
  "FindNearestPaletteColor color palette =
     (if palette = [] then color else palette ! snd (NearestScan color palette))"

definition QuantizeWithFixedPalette :: "Mat \<Rightarrow> PalettePreset \<Rightarrow> Mat" where
  "QuantizeWithFixedPalette smallBgr preset =
     (if empty_Mat smallBgr \<or> \<not> is_8UC3 smallBgr then Mat_null
      else let palette = GetPaletteColors preset in
        if palette = [] then Mat_null
        else \<lparr>rows = rows smallBgr, cols = cols smallBgr, depth = CV_8U, channels = 3,
               rowdata = map (\<lambda>y. map (\<lambda>x. palette ! snd (NearestScan (at_Vec3b smallBgr y x) palette))
                                       [0..<cols smallBgr])
                             [0..<rows smallBgr]\<rparr>)"


section \<open>OpenCV primitives\<close>

text \<open>
  \<open>float\<close> and \<open>double\<close> values are rational numbers here. All float
  arithmetic of the dithering loops and of \<open>ColorDistanceSquared\<close> is exact (small
  integers times sixteenths); elsewhere the rounding of floating point is not
  modelled.
\<close>

type_synonym Vec3f = "rat \<times> rat \<times> rat"

text \<open>
  What the program calls in OpenCV and cannot be computed here, as parameters:
  \<^item> \<open>GaussianBlur\<close>: \<open>cv::GaussianBlur(src, dst, Size(k, k), 0, 0)\<close> on the
    pixel rows, for kernel size \<open>k\<close>;
  \<^item> \<open>BGR2Lab\<close>, \<open>Lab2BGR\<close>: \<open>cv::cvtColor\<close> on 8-bit images, a conversion
    of each pixel by itself;
  \<^item> \<open>kmeans\<close>: \<open>cv::kmeans(samples, K, labels, criteria, 3,
    KMEANS_PP_CENTERS, centers)\<close>, giving the labels and the centres, or
    \<open>None\<close> when it throws. Its random initialisation is part of the parameter.
\<close>

record cv_ops =
  GaussianBlur :: "Vec3b list list \<Rightarrow> int \<Rightarrow> Vec3b list list"
  BGR2Lab :: "Vec3b \<Rightarrow> Vec3b"
  Lab2BGR :: "Vec3b \<Rightarrow> Vec3b"
  kmeans :: "Vec3f list \<Rightarrow> int \<Rightarrow> (nat list \<times> Vec3f list) option"

text \<open>
  The contract of \<open>cv::kmeans\<close>: clustering \<open>N\<close> samples into \<open>0 < K \<le> N\<close>
  clusters gives one label below \<open>K\<close> for each sample and \<open>K\<close> centres. Nothing
  is assumed of it for \<open>K > N\<close>.
\<close>

definition kmeans_ok :: "cv_ops \<Rightarrow> bool" where
  "kmeans_ok cv \<longleftrightarrow>
     (\<forall>samples K. 0 < K \<and> K \<le> int (length samples) \<longrightarrow>
        (\<exists>labels centers. kmeans cv samples K = Some (labels, centers) \<and>
           length labels = length samples \<and> (\<forall>l \<in> set labels. int l < K) \<and>
           int (length centers) = K))"

text \<open>Conversions between numeric types, as the casts of the source perform them.\<close>

definition float_to_int :: "rat \<Rightarrow> int" where
  \<comment> \<open>\<open>static_cast<int>\<close> of a floating-point value: truncation towards zero\<close>
  "float_to_int r = (if 0 \<le> r then \<lfloor>r\<rfloor> else \<lceil>r\<rceil>)"

definition int_to_uchar :: "int \<Rightarrow> uchar" where
  \<comment> \<open>\<open>static_cast<uchar>\<close> of an \<open>int\<close>\<close>
  "int_to_uchar i = word_of_int i"

definition double_to_uchar :: "rat \<Rightarrow> uchar" where
  \<comment> \<open>\<open>static_cast<uchar>\<close> of a \<open>double\<close>: the fraction is dropped\<close>
  "double_to_uchar r = word_of_int (float_to_int r)"

definition lround :: "rat \<Rightarrow> int" where
  \<comment> \<open>\<open>std::lround\<close>: to the nearest integer, halves away from zero\<close>
  "lround r = (if 0 \<le> r then \<lfloor>r + 1 / 2\<rfloor> else \<lceil>r - 1 / 2\<rceil>)"

definition cvRound :: "rat \<Rightarrow> int" where
  \<comment> \<open>\<open>cvRound\<close>, used by \<open>convertTo\<close>: to the nearest integer, halves to even\<close>
  "cvRound r = (if r - of_int \<lfloor>r\<rfloor> < 1 / 2 then \<lfloor>r\<rfloor>
                else if 1 / 2 < r - of_int \<lfloor>r\<rfloor> then \<lfloor>r\<rfloor> + 1
                else if even \<lfloor>r\<rfloor> then \<lfloor>r\<rfloor> else \<lfloor>r\<rfloor> + 1)"

text \<open>
  \<open>cv::mean\<close> of a region: the arithmetic mean of each channel over the pixels
  of the region, a \<open>cv::Scalar\<close> of doubles (zero for no pixels). The mean is
  the exact quotient here; the rounding of the double arithmetic inside
  \<open>cv::mean\<close> is not modelled.
\<close>

definition roi_pixels :: "Mat \<Rightarrow> nat \<Rightarrow> nat \<Rightarrow> nat \<Rightarrow> nat \<Rightarrow> Vec3b list" where
  "roi_pixels m x0 y0 x1 y1 = concat (map (\<lambda>y. map (\<lambda>x. at_Vec3b m y x) [x0..<x1]) [y0..<y1])"

definition channel_mean :: "(Vec3b \<Rightarrow> uchar) \<Rightarrow> Vec3b list \<Rightarrow> rat" where
  "channel_mean ch ps =
     (if ps = [] then 0 else of_int (sum_list (map (\<lambda>p. uint (ch p)) ps)) / of_nat (length ps))"

definition cv_mean :: "Vec3b list \<Rightarrow> Vec3f" where
  "cv_mean ps = (channel_mean ch0 ps, channel_mean ch1 ps, channel_mean ch2 ps)"

text \<open>
  \<open>m(roi).setTo(c)\<close> for the rectangle of columns \<open>x0 \<le> x < x1\<close> and rows
  \<open>y0 \<le> y < y1\<close>.
\<close>

definition setTo :: "Vec3b list list \<Rightarrow> nat \<Rightarrow> nat \<Rightarrow> nat \<Rightarrow> nat \<Rightarrow> Vec3b \<Rightarrow> Vec3b list list" where
  "setTo d x0 y0 x1 y1 c =
     map (\<lambda>y. map (\<lambda>x. if y0 \<le> y \<and> y < y1 \<and> x0 \<le> x \<and> x < x1 then c else d ! y ! x)
                 [0..<length (d ! y)])
         [0..<length d]"

text \<open>
  Morphology on a single-channel 8-bit mask with a structuring element given by
  its offsets from the anchor (the centre). With the default border value,
  positions outside the image do not take part in the minimum or maximum.
\<close>

definition MORPH_CROSS3 :: "(int \<times> int) list" where
  "MORPH_CROSS3 = [(-1, 0), (0, -1), (0, 0), (0, 1), (1, 0)]"

definition MORPH_RECT :: "int \<Rightarrow> (int \<times> int) list" where
  "MORPH_RECT n = List.product [- (n div 2)..n div 2] [- (n div 2)..n div 2]"

definition neighbours :: "uchar list list \<Rightarrow> (int \<times> int) list \<Rightarrow> nat \<Rightarrow> nat \<Rightarrow> uchar list" where
  "neighbours e offs y x =
     map (\<lambda>(dy, dx). e ! nat (int y + dy) ! nat (int x + dx))
         (filter (\<lambda>(dy, dx). 0 \<le> int y + dy \<and> int y + dy < int (length e) \<and>
                             0 \<le> int x + dx \<and> int x + dx < int (length (e ! y))) offs)"

definition erode :: "uchar list list \<Rightarrow> (int \<times> int) list \<Rightarrow> uchar list list" where
  "erode e offs =
     map (\<lambda>y. map (\<lambda>x. fold min (neighbours e offs y x) 255) [0..<length (e ! y)]) [0..<length e]"

definition dilate :: "uchar list list \<Rightarrow> (int \<times> int) list \<Rightarrow> uchar list list" where
  "dilate e offs =
     map (\<lambda>y. map (\<lambda>x. fold max (neighbours e offs y x) 0) [0..<length (e ! y)]) [0..<length e]"

definition morphologyEx_OPEN :: "uchar list list \<Rightarrow> (int \<times> int) list \<Rightarrow> uchar list list" where
  "morphologyEx_OPEN e offs = dilate (erode e offs) offs"

section \<open>Block reducer and block expander\<close>

definition BuildBlockColorImageBGR :: "Mat \<Rightarrow> int \<Rightarrow> Mat" where
  "BuildBlockColorImageBGR inputBgr blockSize' =
     (let w = cols inputBgr; h = rows inputBgr in
      if w \<le> 0 \<or> h \<le> 0 then Mat_null
      else
        let bs = nat (max 1 blockSize');
            bw = (w + bs - 1) div bs;
            bh = (h + bs - 1) div bs
        in \<lparr>rows = bh, cols = bw, depth = CV_8U, channels = 3,
              rowdata =
                map (\<lambda>by. map (\<lambda>bx.
                       let x0 = bx * bs; y0 = by * bs;
                           x1 = min (x0 + bs) w; y1 = min (y0 + bs) h;
                           m = cv_mean (roi_pixels inputBgr x0 y0 x1 y1)
                       in (double_to_uchar (fst m), double_to_uchar (fst (snd m)),
                           double_to_uchar (snd (snd m))))
                     [0..<bw])
                  [0..<bh]\<rparr>)"

definition ExpandBlock :: "Mat \<Rightarrow> nat \<Rightarrow> nat \<Rightarrow> nat \<Rightarrow> Mat \<Rightarrow> Mat" where
  \<comment> \<open>the body of the two loops of \<open>ExpandBlocksBGR\<close>, for the block \<open>(bx, by)\<close>\<close>
  "ExpandBlock smallBgr bs by bx out =
     (let c = at_Vec3b smallBgr by bx;
          x0 = bx * bs; y0 = by * bs;
          x1 = min (x0 + bs) (cols out); y1 = min (y0 + bs) (rows out)
      in if x0 \<ge> x1 \<or> y0 \<ge> y1 then out
         else out\<lparr>rowdata := setTo (rowdata out) x0 y0 x1 y1 c\<rparr>)"

definition ExpandBlocksBGR :: "Mat \<Rightarrow> nat \<times> nat \<Rightarrow> int \<Rightarrow> Mat" where
  \<comment> \<open>\<open>outSize\<close> is given as (rows, cols)\<close>
  "ExpandBlocksBGR smallBgr outSize blockSize' =
     (if empty_Mat smallBgr \<or> \<not> is_8UC3 smallBgr then Mat_null
      else
        let bs = nat (max 1 blockSize');
            out = \<lparr>rows = fst outSize, cols = snd outSize, depth = CV_8U, channels = 3,
                   rowdata = replicate (fst outSize) (replicate (snd outSize) (0, 0, 0))\<rparr>;
            bw = cols smallBgr; bh = rows smallBgr
        in fold (\<lambda>by out. fold (\<lambda>bx out. ExpandBlock smallBgr bs by bx out) [0..<bw] out)
                [0..<bh] out)"

text \<open>
  For comparison with the block reducer, the tile \<open>(by, bx)\<close> as the specification
  describes it: the positions of the image that fall into block row \<open>by\<close> and
  block column \<open>bx\<close> for tiles of edge \<open>bs\<close>, in row-major order.
\<close>

definition spec_TilePositions :: "Mat \<Rightarrow> nat \<Rightarrow> nat \<Rightarrow> nat \<Rightarrow> (nat \<times> nat) list" where
  "spec_TilePositions img bs by bx =
     filter (\<lambda>(y, x). y div bs = by \<and> x div bs = bx)
            (List.product [0..<rows img] [0..<cols img])"

definition spec_TilePixels :: "Mat \<Rightarrow> nat \<Rightarrow> nat \<Rightarrow> nat \<Rightarrow> Vec3b list" where
  "spec_TilePixels img bs by bx =
     map (\<lambda>(y, x). at_Vec3b img y x) (spec_TilePositions img bs by bx)"

section \<open>Clustering branch\<close>

datatype error =
  CvException   \<comment> \<open>\<open>cv::kmeans\<close> threw\<close>
  | OutOfRange  \<comment> \<open>a read of \<open>labels\<close> or \<open>centers\<close> beyond what \<open>cv::kmeans\<close> returned\<close>

fun sequence :: "(error + 'a) list \<Rightarrow> error + 'a list" where
  "sequence [] = Inr []"
| "sequence (Inl e # _) = Inl e"
| "sequence (Inr x # xs) = (case sequence xs of Inl e \<Rightarrow> Inl e | Inr ys \<Rightarrow> Inr (x # ys))"

definition KMeansPaletteSize :: "int \<Rightarrow> int \<Rightarrow> int" where
  \<comment> \<open>\<open>paletteSize = std::max(2, std::min(paletteSize, total))\<close>\<close>
  "KMeansPaletteSize paletteSize' total' = max 2 (min paletteSize' total')"

definition LabSamples :: "cv_ops \<Rightarrow> Mat \<Rightarrow> Vec3f list" where
  \<comment> \<open>the rows of the Lab image, flattened: sample \<open>y * cols + x\<close> is pixel \<open>(y, x)\<close>\<close>
  "LabSamples cv smallBgr =
     concat (map (\<lambda>y. map (\<lambda>x. let q = BGR2Lab cv (at_Vec3b smallBgr y x)
                               in (of_int (uint (ch0 q)), of_int (uint (ch1 q)), of_int (uint (ch2 q))))
                         [0..<cols smallBgr])
                 [0..<rows smallBgr])"

definition CenterToLab :: "Vec3f \<Rightarrow> Vec3b" where
  "CenterToLab c =
     (int_to_uchar (ClampInt (lround (fst c)) 0 255),
      int_to_uchar (ClampInt (lround (fst (snd c))) 0 255),
      int_to_uchar (ClampInt (lround (snd (snd c))) 0 255))"

definition LabelledCenter :: "nat list \<Rightarrow> Vec3f list \<Rightarrow> nat \<Rightarrow> error + Vec3b" where
  \<comment> \<open>\<open>centers.at<float>(labels.at<int>(i, 0), _)\<close>, rounded and clamped\<close>
  "LabelledCenter labels centers i =
     (if i < length labels \<and> labels ! i < length centers
      then Inr (CenterToLab (centers ! (labels ! i))) else Inl OutOfRange)"

definition QuantizeWithKMeansLab :: "cv_ops \<Rightarrow> Mat \<Rightarrow> int \<Rightarrow> error + Mat" where
  "QuantizeWithKMeansLab cv smallBgr paletteSize' =
     (if empty_Mat smallBgr \<or> \<not> is_8UC3 smallBgr then Inr Mat_null
      else
        let total' = int (rows smallBgr * cols smallBgr) in
        if total' \<le> 0 then Inr Mat_null
        else
          let K = KMeansPaletteSize paletteSize' total' in
          case kmeans cv (LabSamples cv smallBgr) K of
            None \<Rightarrow> Inl CvException
          | Some (labels, centers) \<Rightarrow>
              (case sequence (map (\<lambda>y. sequence (map (\<lambda>x. LabelledCenter labels centers (y * cols smallBgr + x))
                                                       [0..<cols smallBgr]))
                                  [0..<rows smallBgr]) of
                 Inl e \<Rightarrow> Inl e
               | Inr quantLab \<Rightarrow>
                   Inr \<lparr>rows = rows smallBgr, cols = cols smallBgr, depth = CV_8U, channels = 3,
                        rowdata = map (map (Lab2BGR cv)) quantLab\<rparr>))"

section \<open>Floyd-Steinberg dithering\<close>

definition modify :: "Vec3b list list \<Rightarrow> nat \<Rightarrow> nat \<Rightarrow> (Vec3b \<Rightarrow> Vec3b) \<Rightarrow> Vec3b list list" where
  \<comment> \<open>a write through the reference \<open>work.ptr<cv::Vec3b>(y)[x]\<close>\<close>
  "modify d y x f = d[y := (d ! y)[x := f (d ! y ! x)]]"

definition AddError :: "uchar \<Rightarrow> rat \<Rightarrow> rat \<Rightarrow> uchar" where
  \<comment> \<open>\<open>static_cast<uchar>(ClampInt(static_cast<int>(v + e * w), 0, 255))\<close>\<close>
  "AddError v e w = int_to_uchar (ClampInt (float_to_int (of_int (uint v) + e * w)) 0 255)"

definition Diffuse :: "Vec3f \<Rightarrow> rat \<Rightarrow> Vec3b \<Rightarrow> Vec3b" where
  "Diffuse err w p =
     (AddError (ch0 p) (fst err) w, AddError (ch1 p) (fst (snd err)) w,
      AddError (ch2 p) (snd (snd err)) w)"

definition ClampPixel :: "Vec3b \<Rightarrow> Vec3b" where
  "ClampPixel p =
     (int_to_uchar (ClampInt (uint (ch0 p)) 0 255), int_to_uchar (ClampInt (uint (ch1 p)) 0 255),
      int_to_uchar (ClampInt (uint (ch2 p)) 0 255))"

definition QuantError :: "Vec3b \<Rightarrow> Vec3b \<Rightarrow> Vec3f" where
  "QuantError oldPixel newPixel =
     (of_int (uint (ch0 oldPixel)) - of_int (uint (ch0 newPixel)),
      of_int (uint (ch1 oldPixel)) - of_int (uint (ch1 newPixel)),
      of_int (uint (ch2 oldPixel)) - of_int (uint (ch2 newPixel)))"

definition DitherCell :: "Vec3b list \<Rightarrow> nat \<Rightarrow> nat \<Rightarrow> nat \<Rightarrow> nat \<Rightarrow> Vec3b list list \<Rightarrow> Vec3b list list" where
  \<comment> \<open>the body of the two loops, at cell \<open>(y, x)\<close> of a \<open>nrows \<times> ncols\<close> grid\<close>
  "DitherCell palette nrows ncols y x work =
     (let oldPixel = ClampPixel (work ! y ! x);
          newPixel = FindNearestPaletteColor oldPixel palette;
          err = QuantError oldPixel newPixel;
          work = modify work y x (\<lambda>_. newPixel);
          work = (if x + 1 < ncols then modify work y (x + 1) (Diffuse err (7 / 16)) else work)
      in if y + 1 < nrows then
           let work = (if int x - 1 \<ge> 0 then modify work (y + 1) (x - 1) (Diffuse err (3 / 16)) else work);
               work = modify work (y + 1) x (Diffuse err (5 / 16))
           in if x + 1 < ncols then modify work (y + 1) (x + 1) (Diffuse err (1 / 16)) else work
         else work)"

definition DitherLoop :: "Vec3b list \<Rightarrow> Mat \<Rightarrow> Mat" where
  \<comment> \<open>the loops that both dithering functions run on \<open>work = smallBgr.clone()\<close>\<close>
  "DitherLoop palette work =
     work\<lparr>rowdata :=
       fold (\<lambda>y d. fold (\<lambda>x d. DitherCell palette (rows work) (cols work) y x d) [0..<cols work] d)
            [0..<rows work] (rowdata work)\<rparr>"

text \<open>
  For comparison with the loops, one step of the error diffusion as the
  specification words it: the cell takes the nearest palette colour; the
  quantisation error, times 7/16, 3/16, 5/16 and 1/16, is added to the right,
  below-left, below and below-right neighbours that lie inside the grid, each
  recipient being clamped to [0, 255] at once; neighbours outside the grid are
  skipped.
\<close>

definition spec_AddError :: "uchar \<Rightarrow> rat \<Rightarrow> rat \<Rightarrow> uchar" where
  \<comment> \<open>add, clamp to [0, 255], store in the 8-bit cell\<close>
  "spec_AddError v e w = int_to_uchar (float_to_int (min 255 (max 0 (of_int (uint v) + e * w))))"

definition spec_Recipients :: "nat \<Rightarrow> nat \<Rightarrow> nat \<Rightarrow> nat \<Rightarrow> ((int \<times> int) \<times> rat) list" where
  "spec_Recipients nrows ncols y x =
     filter (\<lambda>((y', x'), w). 0 \<le> y' \<and> y' < int nrows \<and> 0 \<le> x' \<and> x' < int ncols)
       [((int y, int x + 1), 7 / 16), ((int y + 1, int x - 1), 3 / 16),
        ((int y + 1, int x), 5 / 16), ((int y + 1, int x + 1), 1 / 16)]"

definition spec_DitherStep ::
    "Vec3b list \<Rightarrow> nat \<Rightarrow> nat \<Rightarrow> nat \<times> nat \<Rightarrow> Vec3b list list \<Rightarrow> Vec3b list list" where
  "spec_DitherStep palette nrows ncols cell grid =
     (let y = fst cell; x = snd cell;
          original = grid ! y ! x;
          mapped = FindNearestPaletteColor original palette;
          err = QuantError original mapped;
          grid = modify grid y x (\<lambda>_. mapped)
      in fold (\<lambda>((y', x'), w) g.
                 modify g (nat y') (nat x')
                   (\<lambda>p. (spec_AddError (ch0 p) (fst err) w, spec_AddError (ch1 p) (fst (snd err)) w,
                         spec_AddError (ch2 p) (snd (snd err)) w)))
              (spec_Recipients nrows ncols y x) grid)"

definition spec_Dither :: "Vec3b list \<Rightarrow> Mat \<Rightarrow> Vec3b list list" where
  \<comment> \<open>every cell once, in row-major order\<close>
  "spec_Dither palette work =
     fold (spec_DitherStep palette (rows work) (cols work))
          (List.product [0..<rows work] [0..<cols work]) (rowdata work)"

definition QuantizeWithFixedPaletteDither :: "Mat \<Rightarrow> PalettePreset \<Rightarrow> Mat" where
  "QuantizeWithFixedPaletteDither smallBgr preset =
     (if empty_Mat smallBgr \<or> \<not> is_8UC3 smallBgr then Mat_null
      else let palette = GetPaletteColors preset in
        if palette = [] then Mat_null else DitherLoop palette smallBgr)"

definition KMeansPalette :: "cv_ops \<Rightarrow> Vec3f list \<Rightarrow> int \<Rightarrow> error + Vec3b list" where
  \<comment> \<open>the palette of \<open>paletteSize\<close> entries built from the cluster centres\<close>
  "KMeansPalette cv centers paletteSize' =
     sequence (map (\<lambda>i. if i < length centers then Inr (Lab2BGR cv (CenterToLab (centers ! i)))
                         else Inl OutOfRange)
                   [0..<nat paletteSize'])"

definition QuantizeWithKMeansLabDither :: "cv_ops \<Rightarrow> Mat \<Rightarrow> int \<Rightarrow> error + Mat" where
  "QuantizeWithKMeansLabDither cv smallBgr paletteSize' =
     (if empty_Mat smallBgr \<or> \<not> is_8UC3 smallBgr then Inr Mat_null
      else
        let total' = int (rows smallBgr * cols smallBgr) in
        if total' \<le> 0 then Inr Mat_null
        else
          let K = KMeansPaletteSize paletteSize' total' in
          case kmeans cv (LabSamples cv smallBgr) K of
            None \<Rightarrow> Inl CvException
          | Some (labels, centers) \<Rightarrow>
              (case KMeansPalette cv centers K of
                 Inl e \<Rightarrow> Inl e
               | Inr palette \<Rightarrow> Inr (DitherLoop palette smallBgr)))"

section \<open>Edge enhancement and outline\<close>

definition Sharpen :: "rat \<Rightarrow> uchar \<Rightarrow> uchar \<Rightarrow> uchar" where
  \<comment> \<open>one channel of \<open>bgrF + (bgrF - blurredF) * strength\<close>, clamped and converted back\<close>
  "Sharpen strength b bl =
     (let bF = of_int (uint b); blF = of_int (uint bl);
          sharpened = bF + (bF - blF) * strength
      in int_to_uchar (cvRound (min (max sharpened 0) 255)))"

definition ApplyEdgeEnhancementInPlace :: "cv_ops \<Rightarrow> Mat \<Rightarrow> rat \<Rightarrow> Mat" where
  "ApplyEdgeEnhancementInPlace cv bgr strength' =
     (if empty_Mat bgr \<or> \<not> is_8UC3 bgr then bgr
      else
        let strength = max 0 (min strength' 2);
            blurred = GaussianBlur cv (rowdata bgr) 3
        in bgr\<lparr>rowdata :=
             map (\<lambda>y. map (\<lambda>x.
                    let p = at_Vec3b bgr y x; q = blurred ! y ! x
                    in (Sharpen strength (ch0 p) (ch0 q), Sharpen strength (ch1 p) (ch1 q),
                        Sharpen strength (ch2 p) (ch2 q)))
                  [0..<cols bgr])
               [0..<rows bgr]\<rparr>)"

definition Luminance :: "Vec3b \<Rightarrow> int" where
  \<comment> \<open>\<open>static_cast<int>(0.299f * c[2] + 0.587f * c[1] + 0.114f * c[0])\<close>\<close>
  "Luminance c =
     float_to_int (299 / 1000 * of_int (uint (ch2 c)) + 587 / 1000 * of_int (uint (ch1 c))
                   + 114 / 1000 * of_int (uint (ch0 c)))"

definition Differs :: "Vec3b \<Rightarrow> Vec3b \<Rightarrow> bool" where
  \<comment> \<open>\<open>lumDiff >= 35 || colorDist >= 40\<close>, where \<open>colorDist\<close> is the square root of
      the squared distance\<close>
  "Differs current neighbor =
     (let lumDiff = \<bar>Luminance current - Luminance neighbor\<bar>
      in lumDiff \<ge> 35 \<or> ColorDistanceSquared current neighbor \<ge> 40 * 40)"

definition IsEdge :: "Mat \<Rightarrow> nat \<Rightarrow> nat \<Rightarrow> bool" where
  "IsEdge bgr y x =
     (let current = at_Vec3b bgr y x;
          isEdge = (x + 1 < cols bgr \<and> Differs current (at_Vec3b bgr y (x + 1)));
          isEdge = (if \<not> isEdge \<and> y + 1 < rows bgr \<and> Differs current (at_Vec3b bgr (y + 1) x)
                    then True else isEdge);
          isEdge = (if \<not> isEdge \<and> x > 0 \<and> Differs current (at_Vec3b bgr y (x - 1))
                    then True else isEdge);
          isEdge = (if \<not> isEdge \<and> y > 0 \<and> Differs current (at_Vec3b bgr (y - 1) x)
                    then True else isEdge)
      in isEdge)"

definition EdgeMask :: "Mat \<Rightarrow> uchar list list" where
  "EdgeMask bgr =
     map (\<lambda>y. map (\<lambda>x. if IsEdge bgr y x then 255 else 0) [0..<cols bgr]) [0..<rows bgr]"

definition Darken :: "Vec3b \<Rightarrow> Vec3b" where
  "Darken pixel =
     (let brightness = (uint (ch0 pixel) + uint (ch1 pixel) + uint (ch2 pixel)) div 3;
          darkenAmount = (if brightness < 64 then 40 else if brightness > 192 then 90 else 70)
      in (int_to_uchar (max 0 (uint (ch0 pixel) - darkenAmount)),
          int_to_uchar (max 0 (uint (ch1 pixel) - darkenAmount)),
          int_to_uchar (max 0 (uint (ch2 pixel) - darkenAmount))))"

definition ApplyPixelArtOutline :: "Mat \<Rightarrow> int \<Rightarrow> Mat" where
  "ApplyPixelArtOutline bgr thickness' =
     (if empty_Mat bgr \<or> \<not> is_8UC3 bgr then bgr
      else
        let thickness = max 1 (min thickness' 5);
            edges = EdgeMask bgr;
            edges = (if thickness = 1 then morphologyEx_OPEN edges MORPH_CROSS3
                     else dilate edges (MORPH_RECT (2 * thickness + 1)))
        in bgr\<lparr>rowdata :=
             map (\<lambda>y. map (\<lambda>x. if edges ! y ! x > 128 then Darken (at_Vec3b bgr y x)
                                 else at_Vec3b bgr y x)
                          [0..<cols bgr])
                 [0..<rows bgr]\<rparr>)"

section \<open>The pipeline\<close>

definition Quantize :: "cv_ops \<Rightarrow> Params \<Rightarrow> Mat \<Rightarrow> error + Mat" where
  \<comment> \<open>step 3 of \<open>Process\<close>: the choice between the four quantisers\<close>
  "Quantize cv p smallBlocksBgr =
     (if dither p then
        (if palettePreset p = Custom
         then QuantizeWithKMeansLabDither cv smallBlocksBgr (paletteSize p)
         else Inr (QuantizeWithFixedPaletteDither smallBlocksBgr (palettePreset p)))
      else
        (if palettePreset p = Custom
         then QuantizeWithKMeansLab cv smallBlocksBgr (paletteSize p)
         else Inr (QuantizeWithFixedPalette smallBlocksBgr (palettePreset p))))"

definition ClampedParams :: "Params \<Rightarrow> Params" where
  \<comment> \<open>the local copy \<open>p\<close> of \<open>Process\<close>\<close>
  "ClampedParams params =
     params\<lparr>blockSize := ClampInt (blockSize params) 1 256,
            paletteSize := ClampInt (paletteSize params) 2 256\<rparr>"

definition PreBlur :: "cv_ops \<Rightarrow> Params \<Rightarrow> Mat \<Rightarrow> Mat" where
  \<comment> \<open>step 1 of \<open>Process\<close>; the blurred matrix has the size and type of its source\<close>
  "PreBlur cv p inputBgr =
     (if preBlur p
      then let k = max 3 ((blockSize p div 2) OR 1)
           in inputBgr\<lparr>rowdata := GaussianBlur cv (rowdata inputBgr) k\<rparr>
      else inputBgr)"

definition PostProcess :: "cv_ops \<Rightarrow> Params \<Rightarrow> Mat \<Rightarrow> Mat" where
  \<comment> \<open>steps 5 and 6 of \<open>Process\<close>\<close>
  "PostProcess cv p out =
     (let out = (if edgeEnhance p \<and> \<not> empty_Mat out
                 then ApplyEdgeEnhancementInPlace cv out (7 / 10) else out)
      in if outline p \<and> \<not> empty_Mat out
         then ApplyPixelArtOutline out (ClampInt (outlineThickness p) 1 5)
         else out)"

definition Process :: "cv_ops \<Rightarrow> Mat \<Rightarrow> Params \<Rightarrow> error + Mat" where
  "Process cv inputBgr params =
     (if empty_Mat inputBgr then Inr Mat_null
      else if \<not> is_8UC3 inputBgr then Inr Mat_null
      else
        let p = ClampedParams params;
            work = PreBlur cv p inputBgr;
            smallBlocksBgr = BuildBlockColorImageBGR work (blockSize p)
        in if empty_Mat smallBlocksBgr then Inr Mat_null
           else case Quantize cv p smallBlocksBgr of
             Inl e \<Rightarrow> Inl e
           | Inr quantizedSmallBgr \<Rightarrow>
               if empty_Mat quantizedSmallBgr then Inr Mat_null
               else Inr (PostProcess cv p
                           (ExpandBlocksBGR quantizedSmallBgr (rows inputBgr, cols inputBgr)
                              (blockSize p))))"

text \<open>
  An instance of the OpenCV parameters on which the definitions can be run: no
  smoothing, the identity as colour conversion, and a clustering that puts
  every sample into cluster 0, with the first sample as every centre (and throws
  when there are fewer samples than clusters).
\<close>

definition cv_plain :: cv_ops where
  "cv_plain = \<lparr>GaussianBlur = (\<lambda>d k. d), BGR2Lab = (\<lambda>p. p), Lab2BGR = (\<lambda>p. p),
                kmeans = (\<lambda>samples K.
                   if 0 < K \<and> K \<le> int (length samples)
                   then Some (replicate (length samples) 0, replicate (nat K) (hd samples))
                   else None)\<rparr>"

section \<open>Concrete inputs\<close>

definition quadrants :: Mat where
  "quadrants = \<lparr>rows = 2, cols = 2, depth = CV_8U, channels = 3,
     rowdata = [ [(10, 20, 30), (90, 250, 240)], [(250, 80, 250), (200, 210, 220)]]\<rparr>"

definition gray1 :: Mat where
  "gray1 = \<lparr>rows = 1, cols = 1, depth = CV_8U, channels = 1, rowdata = [ [(7, 7, 7)]]\<rparr>"

definition defaults :: Params where
  \<comment> \<open>the default member initialisers of \<open>Params\<close>\<close>
  "defaults = \<lparr>blockSize = 8, paletteSize = 16, preBlur = True, edgeEnhance = False,
     dither = False, outline = False, outlineThickness = 1, palettePreset = Custom\<rparr>"

definition one_pixel :: Mat where
  "one_pixel = \<lparr>rows = 1, cols = 1, depth = CV_8U, channels = 3, rowdata = [ [(40, 80, 200)]]\<rparr>"

definition black_white :: Mat where
  "black_white = \<lparr>rows = 1, cols = 2, depth = CV_8U, channels = 3,
     rowdata = [ [(0, 0, 0), (255, 255, 255)]]\<rparr>"

definition outlined :: Params where
  "outlined = \<lparr>blockSize = 1, paletteSize = 16, preBlur = False, edgeEnhance = False,
     dither = False, outline = True, outlineThickness = 2, palettePreset = CGA\<rparr>"

definition gradient :: Mat where
  "gradient = \<lparr>rows = 2, cols = 3, depth = CV_8U, channels = 3,
     rowdata = [ [(40, 40, 40), (100, 100, 100), (160, 160, 160)],
                [(60, 60, 60), (120, 120, 120), (220, 220, 220)]]\<rparr>"

definition thirds :: Mat where
  "thirds = \<lparr>rows = 1, cols = 3, depth = CV_8U, channels = 3,
     rowdata = [ [(0, 0, 0), (1, 1, 1), (1, 1, 1)]]\<rparr>"

section \<open>Properties of the nearest-colour scan\<close>

lemma uint_uchar_diff_bounds: "\<bar>uint (a::uchar) - uint (b::uchar)\<bar> \<le> 255"
proof -
  have "uint a < 256" "uint b < 256" using uint_bounded [of a] uint_bounded [of b] by simp_all
  moreover have "0 \<le> uint a" "0 \<le> uint b" by simp_all
  ultimately show ?thesis by linarith
qed

lemma square_le_255: "\<bar>d::int\<bar> \<le> 255 \<Longrightarrow> d * d \<le> 65025"
proof -
  assume "\<bar>d\<bar> \<le> 255"
  then have "\<bar>d\<bar> * \<bar>d\<bar> \<le> 255 * 255" by (intro mult_mono) simp_all
  then show ?thesis by (simp add: abs_mult_self_eq)
qed

lemma ColorDistanceSquared_nonneg: "0 \<le> ColorDistanceSquared a b"
  by (simp add: ColorDistanceSquared_def Let_def)

lemma ColorDistanceSquared_le: "ColorDistanceSquared a b \<le> 195075"
  using square_le_255 [OF uint_uchar_diff_bounds [of "ch2 a" "ch2 b"]]
        square_le_255 [OF uint_uchar_diff_bounds [of "ch1 a" "ch1 b"]]
        square_le_255 [OF uint_uchar_diff_bounds [of "ch0 a" "ch0 b"]]
  by (simp add: ColorDistanceSquared_def Let_def)

lemma ColorDistanceSquared_lt_FLT_MAX: "ColorDistanceSquared a b < FLT_MAX"
  using ColorDistanceSquared_le [of a b] by (simp add: FLT_MAX_def)

lemma sum_three_squares_zero:
  "(x::int) * x + y * y + z * z = 0 \<longleftrightarrow> x = 0 \<and> y = 0 \<and> z = 0"
proof
  assume h: "x * x + y * y + z * z = 0"
  have "0 \<le> x * x" "0 \<le> y * y" "0 \<le> z * z" by simp_all
  with h have "x * x = 0" "y * y = 0" "z * z = 0" by linarith+
  then show "x = 0 \<and> y = 0 \<and> z = 0" by simp
qed simp

lemma ColorDistanceSquared_zero_iff: "ColorDistanceSquared a b = 0 \<longleftrightarrow> a = b"
  by (cases a, cases b) (auto simp: ColorDistanceSquared_def Let_def ch0_def ch1_def ch2_def sum_three_squares_zero word_uint_eq_iff)

lemma NearestPrefix_Suc: "NearestPrefix c pal (Suc n) = NearestStep c pal n (NearestPrefix c pal n)"
  by (simp add: NearestPrefix_def)

lemma NearestPrefix_inv:
  "0 < n \<Longrightarrow>
     snd (NearestPrefix c pal n) < n \<and>
     fst (NearestPrefix c pal n) = ColorDistanceSquared c (pal ! snd (NearestPrefix c pal n)) \<and>
     (\<forall>j<n. fst (NearestPrefix c pal n) \<le> ColorDistanceSquared c (pal ! j)) \<and>
     (\<forall>j < snd (NearestPrefix c pal n). fst (NearestPrefix c pal n) < ColorDistanceSquared c (pal ! j))"
proof (induction n)
  case 0
  then show ?case by simp
next
  case (Suc n)
  show ?case
  proof (cases "n = 0")
    case True
    then show ?thesis
      using ColorDistanceSquared_lt_FLT_MAX [of c "pal ! 0"]
      by (simp add: NearestPrefix_def NearestStep_def Let_def)
  next
    case False
    then have "0 < n" by simp
    note IH = Suc.IH [OF this, THEN conjunct1] Suc.IH [OF this, THEN conjunct2, THEN conjunct1]
      Suc.IH [OF this, THEN conjunct2, THEN conjunct2, THEN conjunct1]
      Suc.IH [OF this, THEN conjunct2, THEN conjunct2, THEN conjunct2]
    show ?thesis
    proof (cases "ColorDistanceSquared c (pal ! n) < fst (NearestPrefix c pal n)")
      case True
      then have eq: "NearestPrefix c pal (Suc n) = (ColorDistanceSquared c (pal ! n), n)"
        by (simp add: NearestPrefix_Suc NearestStep_def Let_def)
      show ?thesis unfolding eq using True IH(3) by (auto simp: less_Suc_eq)
    next
      case False
      then have eq: "NearestPrefix c pal (Suc n) = NearestPrefix c pal n"
        by (simp add: NearestPrefix_Suc NearestStep_def Let_def)
      show ?thesis unfolding eq using False IH by (auto simp: less_Suc_eq)
    qed
  qed
qed

lemma NearestScan_props:
  assumes "palette \<noteq> []"
  shows "snd (NearestScan c palette) < length palette"
    and "\<forall>j<length palette. ColorDistanceSquared c (palette ! snd (NearestScan c palette))
            \<le> ColorDistanceSquared c (palette ! j)"
    and "\<forall>j < snd (NearestScan c palette). ColorDistanceSquared c (palette ! snd (NearestScan c palette))
            < ColorDistanceSquared c (palette ! j)"
proof -
  have n: "0 < length palette" using assms by simp
  have eq: "NearestScan c palette = NearestPrefix c palette (length palette)"
    by (simp add: NearestScan_def)
  note inv = NearestPrefix_inv [OF n, of c palette, folded eq]
  show "snd (NearestScan c palette) < length palette" using inv by blast
  show "\<forall>j<length palette. ColorDistanceSquared c (palette ! snd (NearestScan c palette))
            \<le> ColorDistanceSquared c (palette ! j)" using inv by metis
  show "\<forall>j < snd (NearestScan c palette). ColorDistanceSquared c (palette ! snd (NearestScan c palette))
            < ColorDistanceSquared c (palette ! j)" using inv by metis
qed

lemma NearestScan_fixes_palette_entry:
  assumes "c \<in> set palette"
  shows "palette ! snd (NearestScan c palette) = c"
proof -
  from assms have ne: "palette \<noteq> []" by auto
  from assms obtain j where j: "j < length palette" "palette ! j = c"
    by (auto simp: in_set_conv_nth)
  have "ColorDistanceSquared c (palette ! snd (NearestScan c palette)) \<le> ColorDistanceSquared c (palette ! j)"
    using NearestScan_props(2) [OF ne] j(1) by blast
  also have "\<dots> = 0" using j(2) by (simp add: ColorDistanceSquared_zero_iff)
  finally have "ColorDistanceSquared c (palette ! snd (NearestScan c palette)) = 0"
    using ColorDistanceSquared_nonneg [of c "palette ! snd (NearestScan c palette)"] by linarith
  then show ?thesis by (simp add: ColorDistanceSquared_zero_iff)
qed

lemma QuantizeWithFixedPalette_twice:
  "QuantizeWithFixedPalette (QuantizeWithFixedPalette img preset) preset = QuantizeWithFixedPalette img preset"
proof (cases "empty_Mat img \<or> \<not> is_8UC3 img \<or> GetPaletteColors preset = []")
  case True
  then show ?thesis
    by (auto simp: QuantizeWithFixedPalette_def Mat_null_def empty_Mat_def Let_def)
next
  case False
  define pal where "pal = GetPaletteColors preset"
  define q where "q = QuantizeWithFixedPalette img preset"
  have ne: "pal \<noteq> []" using False by (simp add: pal_def)
  have q: "q = \<lparr>rows = rows img, cols = cols img, depth = CV_8U, channels = 3,
               rowdata = map (\<lambda>y. map (\<lambda>x. pal ! snd (NearestScan (at_Vec3b img y x) pal))
                                       [0..<cols img]) [0..<rows img]\<rparr>"
    using False by (simp add: q_def QuantizeWithFixedPalette_def Let_def pal_def)
  have atq: "at_Vec3b q y x = pal ! snd (NearestScan (at_Vec3b img y x) pal)" if "y < rows img" "x < cols img" for y x
    using that by (simp add: q at_Vec3b_def)
  have mem: "at_Vec3b q y x \<in> set pal" if "y < rows img" "x < cols img" for y x
    using that NearestScan_props(1) [OF ne] by (simp add: atq)
  have fixd: "pal ! snd (NearestScan (at_Vec3b q y x) pal) = at_Vec3b q y x" if "y < rows img" "x < cols img" for y x
    using NearestScan_fixes_palette_entry [OF mem [OF that]] .
  have rd: "map (\<lambda>y. map (\<lambda>x. pal ! snd (NearestScan (at_Vec3b q y x) pal)) [0..<cols img]) [0..<rows img]
      = map (\<lambda>y. map (\<lambda>x. pal ! snd (NearestScan (at_Vec3b img y x) pal)) [0..<cols img]) [0..<rows img]"
    by (rule map_cong [OF refl], rule map_cong [OF refl]) (use fixd atq in force)
  have "QuantizeWithFixedPalette q preset = \<lparr>rows = rows img, cols = cols img, depth = CV_8U, channels = 3,
               rowdata = map (\<lambda>y. map (\<lambda>x. pal ! snd (NearestScan (at_Vec3b q y x) pal))
                                       [0..<cols img]) [0..<rows img]\<rparr>"
    using False ne by (simp add: QuantizeWithFixedPalette_def Let_def pal_def [symmetric] q empty_Mat_def is_8UC3_def)
  also have "\<dots> = q"
    by (simp only: rd q [symmetric])
  finally show ?thesis by (simp add: q_def)
qed

section \<open>Parameters and palette tables\<close>

lemma ClampInt_idem: "lo \<le> hi \<Longrightarrow> ClampInt (ClampInt v lo hi) lo hi = ClampInt v lo hi"
  by (simp add: ClampInt_def)

lemma GetPaletteColors_sizes:
  "length (GetPaletteColors GameBoy) = 4" "length (GetPaletteColors GameBoyPocket) = 4"
  "length (GetPaletteColors CGA) = 4" "length (GetPaletteColors Pico8) = 16"
  "length (GetPaletteColors EGA) = 16" "length (GetPaletteColors Commodore64) = 16"
  by (simp_all add: GetPaletteColors_def)

lemma GetPaletteColors_distinct:
  "distinct (GetPaletteColors GameBoy)" "distinct (GetPaletteColors GameBoyPocket)"
  "distinct (GetPaletteColors CGA)" "distinct (GetPaletteColors Pico8)"
  "distinct (GetPaletteColors EGA)" "distinct (GetPaletteColors Commodore64)"
  by (simp_all add: GetPaletteColors_def)

lemma GetPaletteColors_nonempty: "preset \<noteq> Custom \<Longrightarrow> GetPaletteColors preset \<noteq> []"
  by (cases preset) (simp_all add: GetPaletteColors_def)

section \<open>Block reducer and block expander: shapes and pixels\<close>

lemma div_eq_block_iff:
  fixes y bs b :: nat
  assumes "0 < bs"
  shows "b * bs \<le> y \<and> y < b * bs + bs \<longleftrightarrow> y div bs = b"
proof
  assume "b * bs \<le> y \<and> y < b * bs + bs"
  then show "y div bs = b" by (intro div_nat_eqI) (simp_all add: mult.commute)
next
  assume e: "y div bs = b"
  have "y div bs * bs \<le> y" by simp
  moreover have "y < bs + y div bs * bs" using assms by (rule dividend_less_div_times)
  ultimately show "b * bs \<le> y \<and> y < b * bs + bs" using e by (simp add: add.commute)
qed

lemma ceil_div_covers:
  fixes y h bs :: nat
  assumes "0 < bs" "y < h"
  shows "y div bs < (h + bs - 1) div bs"
proof -
  have "h + bs - 1 < bs + (h + bs - 1) div bs * bs" using assms(1) by (rule dividend_less_div_times)
  then have "y < (h + bs - 1) div bs * bs" using assms by linarith
  then show ?thesis using assms(1) by (simp add: div_less_iff_less_mult)
qed

lemma ceil_div_pos:
  fixes h bs :: nat
  assumes "0 < bs" "0 < h"
  shows "0 < (h + bs - 1) div bs"
  using ceil_div_covers [OF assms(1), of 0 h] assms(2) by simp

lemma setTo_length: "length (setTo d x0 y0 x1 y1 c) = length d"
  by (simp add: setTo_def)

lemma setTo_row_length: "y < length d \<Longrightarrow> length (setTo d x0 y0 x1 y1 c ! y) = length (d ! y)"
  by (simp add: setTo_def)

lemma setTo_nth:
  "y < length d \<Longrightarrow> x < length (d ! y) \<Longrightarrow>
   setTo d x0 y0 x1 y1 c ! y ! x = (if y0 \<le> y \<and> y < y1 \<and> x0 \<le> x \<and> x < x1 then c else d ! y ! x)"
  by (simp add: setTo_def)

lemma wf_Mat_nth: "wf_Mat m \<Longrightarrow> y < rows m \<Longrightarrow> length (rowdata m ! y) = cols m"
  by (simp add: wf_Mat_def)

lemma wf_MatI:
  "length (rowdata m) = rows m \<Longrightarrow> (\<And>y. y < rows m \<Longrightarrow> length (rowdata m ! y) = cols m) \<Longrightarrow> wf_Mat m"
  by (auto simp: wf_Mat_def in_set_conv_nth)

lemma ExpandBlock_header [simp]:
  "rows (ExpandBlock small bs by bx out) = rows out"
  "cols (ExpandBlock small bs by bx out) = cols out"
  "depth (ExpandBlock small bs by bx out) = depth out"
  "channels (ExpandBlock small bs by bx out) = channels out"
  by (simp_all add: ExpandBlock_def Let_def)

lemma ExpandBlock_wf: "wf_Mat out \<Longrightarrow> wf_Mat (ExpandBlock small bs by bx out)"
  by (rule wf_MatI)
     (auto simp: ExpandBlock_def Let_def setTo_length setTo_row_length wf_Mat_nth wf_Mat_def)

lemma ExpandBlock_at:
  assumes "wf_Mat out" "0 < bs" "y < rows out" "x < cols out"
  shows "at_Vec3b (ExpandBlock small bs by bx out) y x =
           (if y div bs = by \<and> x div bs = bx then at_Vec3b small by bx else at_Vec3b out y x)"
proof -
  have len: "y < length (rowdata out)" "x < length (rowdata out ! y)"
    using assms by (simp_all add: wf_Mat_def)
  have iy: "y div bs = by \<longleftrightarrow> by * bs \<le> y \<and> y < by * bs + bs"
    using div_eq_block_iff [OF assms(2)] by blast
  have ix: "x div bs = bx \<longleftrightarrow> bx * bs \<le> x \<and> x < bx * bs + bs"
    using div_eq_block_iff [OF assms(2)] by blast
  show ?thesis
    using assms(3,4)
    by (auto simp: ExpandBlock_def Let_def at_Vec3b_def setTo_nth [OF len] iy ix)
qed

lemma ExpandRow_header [simp]:
  "rows (fold (ExpandBlock small bs by) bxs out) = rows out"
  "cols (fold (ExpandBlock small bs by) bxs out) = cols out"
  "depth (fold (ExpandBlock small bs by) bxs out) = depth out"
  "channels (fold (ExpandBlock small bs by) bxs out) = channels out"
  by (induction bxs arbitrary: out; simp)+

lemma ExpandRow_wf: "wf_Mat out \<Longrightarrow> wf_Mat (fold (ExpandBlock small bs by) bxs out)"
  by (induction bxs arbitrary: out) (simp_all add: ExpandBlock_wf)

lemma ExpandRow_at:
  assumes "wf_Mat out" "0 < bs" "y < rows out" "x < cols out"
  shows "at_Vec3b (fold (ExpandBlock small bs by) [0..<n] out) y x =
           (if y div bs = by \<and> x div bs < n then at_Vec3b small by (x div bs) else at_Vec3b out y x)"
proof (induction n)
  case 0
  then show ?case by simp
next
  case (Suc n)
  have "at_Vec3b (fold (ExpandBlock small bs by) [0..<Suc n] out) y x =
        at_Vec3b (ExpandBlock small bs by n (fold (ExpandBlock small bs by) [0..<n] out)) y x"
    by simp
  also have "\<dots> = (if y div bs = by \<and> x div bs = n then at_Vec3b small by n
                    else at_Vec3b (fold (ExpandBlock small bs by) [0..<n] out) y x)"
    using assms by (intro ExpandBlock_at) (simp_all add: ExpandRow_wf)
  finally show ?case using Suc.IH by (auto simp: less_Suc_eq)
qed

lemma ExpandAll_header [simp]:
  "rows (fold (\<lambda>by. fold (ExpandBlock small bs by) bxs) bys out) = rows out"
  "cols (fold (\<lambda>by. fold (ExpandBlock small bs by) bxs) bys out) = cols out"
  "depth (fold (\<lambda>by. fold (ExpandBlock small bs by) bxs) bys out) = depth out"
  "channels (fold (\<lambda>by. fold (ExpandBlock small bs by) bxs) bys out) = channels out"
  by (induction bys arbitrary: out; simp)+

lemma ExpandAll_wf:
  "wf_Mat out \<Longrightarrow> wf_Mat (fold (\<lambda>by. fold (ExpandBlock small bs by) bxs) bys out)"
  by (induction bys arbitrary: out) (simp_all add: ExpandRow_wf)

lemma ExpandAll_at:
  assumes "wf_Mat out" "0 < bs" "y < rows out" "x < cols out"
  shows "at_Vec3b (fold (\<lambda>by. fold (ExpandBlock small bs by) [0..<bw]) [0..<m] out) y x =
           (if y div bs < m \<and> x div bs < bw then at_Vec3b small (y div bs) (x div bs)
            else at_Vec3b out y x)"
proof (induction m)
  case 0
  then show ?case by simp
next
  case (Suc m)
  let ?prev = "fold (\<lambda>by. fold (ExpandBlock small bs by) [0..<bw]) [0..<m] out"
  have "at_Vec3b (fold (\<lambda>by. fold (ExpandBlock small bs by) [0..<bw]) [0..<Suc m] out) y x =
        at_Vec3b (fold (ExpandBlock small bs m) [0..<bw] ?prev) y x"
    by simp
  also have "\<dots> = (if y div bs = m \<and> x div bs < bw then at_Vec3b small m (x div bs)
                    else at_Vec3b ?prev y x)"
    using assms by (intro ExpandRow_at) (simp_all add: ExpandAll_wf)
  finally show ?case using Suc.IH by (auto simp: less_Suc_eq)
qed

lemma black_wf:
  "wf_Mat \<lparr>rows = h, cols = w, depth = CV_8U, channels = 3,
            rowdata = replicate h (replicate w (0, 0, 0))\<rparr>"
  by (simp add: wf_Mat_def)

lemma ExpandBlocksBGR_props:
  assumes "\<not> empty_Mat small" "is_8UC3 small"
  shows "rows (ExpandBlocksBGR small (h, w) bsz) = h"
    and "cols (ExpandBlocksBGR small (h, w) bsz) = w"
    and "is_8UC3 (ExpandBlocksBGR small (h, w) bsz)"
    and "wf_Mat (ExpandBlocksBGR small (h, w) bsz)"
    and "y < h \<Longrightarrow> x < w \<Longrightarrow>
         at_Vec3b (ExpandBlocksBGR small (h, w) bsz) y x =
           (if y div nat (max 1 bsz) < rows small \<and> x div nat (max 1 bsz) < cols small
            then at_Vec3b small (y div nat (max 1 bsz)) (x div nat (max 1 bsz)) else (0, 0, 0))"
proof -
  let ?out = "\<lparr>rows = h, cols = w, depth = CV_8U, channels = 3,
               rowdata = replicate h (replicate w (0, 0, 0))\<rparr>"
  let ?bs = "nat (max 1 bsz)"
  have eq: "ExpandBlocksBGR small (h, w) bsz =
              fold (\<lambda>by. fold (ExpandBlock small ?bs by) [0..<cols small]) [0..<rows small] ?out"
    using assms by (simp add: ExpandBlocksBGR_def Let_def)
  show "rows (ExpandBlocksBGR small (h, w) bsz) = h" "cols (ExpandBlocksBGR small (h, w) bsz) = w"
    "is_8UC3 (ExpandBlocksBGR small (h, w) bsz)"
    by (simp_all add: eq is_8UC3_def)
  show "wf_Mat (ExpandBlocksBGR small (h, w) bsz)"
    unfolding eq by (rule ExpandAll_wf [OF black_wf])
  show "at_Vec3b (ExpandBlocksBGR small (h, w) bsz) y x =
           (if y div ?bs < rows small \<and> x div ?bs < cols small
            then at_Vec3b small (y div ?bs) (x div ?bs) else (0, 0, 0))" if "y < h" "x < w"
  proof -
    have bs: "0 < ?bs" by simp
    have b: "at_Vec3b ?out y x = (0, 0, 0)" using that by (simp add: at_Vec3b_def)
    have "at_Vec3b (fold (\<lambda>by. fold (ExpandBlock small ?bs by) [0..<cols small]) [0..<rows small] ?out) y x
        = (if y div ?bs < rows small \<and> x div ?bs < cols small
            then at_Vec3b small (y div ?bs) (x div ?bs) else at_Vec3b ?out y x)"
      by (rule ExpandAll_at [OF black_wf bs]) (simp_all add: that)
    then show ?thesis by (simp only: eq b)
  qed
qed

lemma BuildBlockColorImageBGR_header:
  assumes "\<not> empty_Mat img"
  shows "rows (BuildBlockColorImageBGR img bsz) = (rows img + nat (max 1 bsz) - 1) div nat (max 1 bsz)"
    and "cols (BuildBlockColorImageBGR img bsz) = (cols img + nat (max 1 bsz) - 1) div nat (max 1 bsz)"
    and "is_8UC3 (BuildBlockColorImageBGR img bsz)"
    and "wf_Mat (BuildBlockColorImageBGR img bsz)"
    and "\<not> empty_Mat (BuildBlockColorImageBGR img bsz)"
  using assms ceil_div_pos [of "nat (max 1 bsz)" "rows img"] ceil_div_pos [of "nat (max 1 bsz)" "cols img"]
  by (simp_all add: BuildBlockColorImageBGR_def Let_def empty_Mat_def is_8UC3_def wf_Mat_def)

lemma ceil_div_one:
  fixes h bs :: nat
  assumes "0 < h" "h \<le> bs"
  shows "(h + bs - 1) div bs = 1"
  using assms by (intro div_nat_eqI) simp_all

lemma div_zero_block:
  fixes y h bs :: nat
  shows "y < h \<Longrightarrow> h \<le> bs \<Longrightarrow> y div bs = 0"
  by simp

section \<open>The quantisers and the structure of the pipeline\<close>

lemma sequence_Inr_length: "sequence xs = Inr ys \<Longrightarrow> length ys = length xs"
proof (induction xs arbitrary: ys)
  case Nil
  then show ?case by simp
next
  case (Cons a xs)
  then show ?case by (cases a) (auto split: sum.splits)
qed

lemma sequence_Inr_nth:
  "sequence xs = Inr ys \<Longrightarrow> i < length xs \<Longrightarrow> xs ! i = Inr (ys ! i)"
proof (induction xs arbitrary: ys i)
  case Nil
  then show ?case by simp
next
  case (Cons a xs)
  then show ?case by (cases a; cases i) (auto split: sum.splits)
qed

lemma sequence_no_Inl:
  "(\<And>x. x \<in> set xs \<Longrightarrow> \<not> isl x) \<Longrightarrow> \<not> isl (sequence xs)"
proof (induction xs)
  case Nil
  then show ?case by simp
next
  case (Cons a xs)
  then have "\<not> isl a" "\<not> isl (sequence xs)" by simp_all
  then show ?case by (cases a; cases "sequence xs") simp_all
qed

lemma not_isl_Inr: "\<not> isl s \<Longrightarrow> \<exists>v. s = Inr v"
  by (cases s) simp_all

lemma QuantizeWithFixedPalette_props:
  assumes "\<not> empty_Mat small" "is_8UC3 small" "preset \<noteq> Custom"
  shows "rows (QuantizeWithFixedPalette small preset) = rows small"
    and "cols (QuantizeWithFixedPalette small preset) = cols small"
    and "is_8UC3 (QuantizeWithFixedPalette small preset)"
    and "y < rows small \<Longrightarrow> x < cols small \<Longrightarrow>
           at_Vec3b (QuantizeWithFixedPalette small preset) y x
             = FindNearestPaletteColor (at_Vec3b small y x) (GetPaletteColors preset)"
  using assms GetPaletteColors_nonempty [OF assms(3)]
  by (simp_all add: QuantizeWithFixedPalette_def Let_def is_8UC3_def at_Vec3b_def
      FindNearestPaletteColor_def)

lemma FindNearestPaletteColor_mem:
  "palette \<noteq> [] \<Longrightarrow> FindNearestPaletteColor c palette \<in> set palette"
  using NearestScan_props(1) [of palette c] by (simp add: FindNearestPaletteColor_def)

lemma DitherLoop_header [simp]:
  "rows (DitherLoop palette work) = rows work" "cols (DitherLoop palette work) = cols work"
  "depth (DitherLoop palette work) = depth work" "channels (DitherLoop palette work) = channels work"
  by (simp_all add: DitherLoop_def)

lemma QuantizeWithFixedPaletteDither_eq:
  "\<not> empty_Mat small \<Longrightarrow> is_8UC3 small \<Longrightarrow> preset \<noteq> Custom \<Longrightarrow>
   QuantizeWithFixedPaletteDither small preset = DitherLoop (GetPaletteColors preset) small"
  using GetPaletteColors_nonempty [of preset]
  by (simp add: QuantizeWithFixedPaletteDither_def Let_def)

lemma total_pos: "\<not> empty_Mat m \<Longrightarrow> \<not> int (rows m * cols m) \<le> 0"
  by (simp add: empty_Mat_def del: of_nat_mult)

lemma two_cells_nonempty: "2 \<le> rows m * cols m \<Longrightarrow> \<not> empty_Mat m"
  by (cases "rows m = 0"; cases "cols m = 0") (simp_all add: empty_Mat_def)

lemma QuantizeWithKMeansLab_valid:
  assumes "\<not> empty_Mat small" "is_8UC3 small"
  shows "QuantizeWithKMeansLab cv small ps =
     (case kmeans cv (LabSamples cv small) (KMeansPaletteSize ps (int (rows small * cols small))) of
        None \<Rightarrow> Inl CvException
      | Some (labels, centers) \<Rightarrow>
          (case sequence (map (\<lambda>y. sequence (map (\<lambda>x. LabelledCenter labels centers (y * cols small + x))
                                                   [0..<cols small]))
                              [0..<rows small]) of
             Inl e \<Rightarrow> Inl e
           | Inr quantLab \<Rightarrow>
               Inr \<lparr>rows = rows small, cols = cols small, depth = CV_8U, channels = 3,
                    rowdata = map (map (Lab2BGR cv)) quantLab\<rparr>))"
  using assms total_pos [OF assms(1)]
  by (simp add: QuantizeWithKMeansLab_def Let_def del: of_nat_mult)

lemma QuantizeWithKMeansLabDither_valid:
  assumes "\<not> empty_Mat small" "is_8UC3 small"
  shows "QuantizeWithKMeansLabDither cv small ps =
     (case kmeans cv (LabSamples cv small) (KMeansPaletteSize ps (int (rows small * cols small))) of
        None \<Rightarrow> Inl CvException
      | Some (labels, centers) \<Rightarrow>
          (case KMeansPalette cv centers (KMeansPaletteSize ps (int (rows small * cols small))) of
             Inl e \<Rightarrow> Inl e
           | Inr palette \<Rightarrow> Inr (DitherLoop palette small)))"
  using assms total_pos [OF assms(1)]
  by (simp add: QuantizeWithKMeansLabDither_def Let_def del: of_nat_mult)

lemma QuantizeWithKMeansLab_header:
  assumes "\<not> empty_Mat small" "is_8UC3 small" "QuantizeWithKMeansLab cv small ps = Inr q"
  shows "rows q = rows small \<and> cols q = cols small \<and> is_8UC3 q"
  using assms(3) unfolding QuantizeWithKMeansLab_valid [OF assms(1,2)]
  by (auto simp: is_8UC3_def split: option.splits sum.splits)

lemma QuantizeWithKMeansLabDither_eq:
  assumes "\<not> empty_Mat small" "is_8UC3 small" "QuantizeWithKMeansLabDither cv small ps = Inr q"
  shows "\<exists>palette. palette \<noteq> [] \<and> q = DitherLoop palette small"
proof -
  let ?K = "KMeansPaletteSize ps (int (rows small * cols small))"
  have K: "2 \<le> ?K" by (simp add: KMeansPaletteSize_def)
  from assms(3) obtain labels centers palette where
      p: "KMeansPalette cv centers ?K = Inr palette" and q: "q = DitherLoop palette small"
    unfolding QuantizeWithKMeansLabDither_valid [OF assms(1,2)]
    by (auto split: option.splits sum.splits)
  have "length palette = nat ?K"
    using sequence_Inr_length [OF p [unfolded KMeansPalette_def]] by simp
  with K have "palette \<noteq> []" by auto
  with q show ?thesis by blast
qed

lemma KMeansPalette_Inr:
  assumes "KMeansPalette cv centers K = Inr palette"
  shows "nat K \<le> length centers"
    and "palette = map (\<lambda>i. Lab2BGR cv (CenterToLab (centers ! i))) [0..<nat K]"
proof -
  let ?f = "\<lambda>i. if i < length centers then Inr (Lab2BGR cv (CenterToLab (centers ! i)))
                  else Inl OutOfRange"
  have s: "sequence (map ?f [0..<nat K]) = Inr palette"
    using assms by (simp add: KMeansPalette_def)
  have len: "length palette = nat K" using sequence_Inr_length [OF s] by simp
  have el: "i < length centers \<and> palette ! i = Lab2BGR cv (CenterToLab (centers ! i))"
    if "i < nat K" for i
  proof -
    have "map ?f [0..<nat K] ! i = Inr (palette ! i)"
      using that by (intro sequence_Inr_nth [OF s]) simp
    then have "?f i = Inr (palette ! i)" using that by (simp cong: if_cong)
    then show ?thesis by (cases "i < length centers") simp_all
  qed
  show "nat K \<le> length centers"
  proof (cases "nat K")
    case 0
    then show ?thesis by simp
  next
    case (Suc n)
    then have "n < nat K" by simp
    from el [OF this] Suc show ?thesis by simp
  qed
  show "palette = map (\<lambda>i. Lab2BGR cv (CenterToLab (centers ! i))) [0..<nat K]"
    by (rule nth_equalityI) (simp_all add: len el)
qed

lemma QuantizeWithKMeansLabDither_palette:
  assumes "\<not> empty_Mat small" "is_8UC3 small" "QuantizeWithKMeansLabDither cv small ps = Inr q"
  shows "\<exists>labels centers palette.
           kmeans cv (LabSamples cv small) (KMeansPaletteSize ps (int (rows small * cols small)))
             = Some (labels, centers) \<and>
           KMeansPalette cv centers (KMeansPaletteSize ps (int (rows small * cols small))) = Inr palette \<and>
           nat (KMeansPaletteSize ps (int (rows small * cols small))) \<le> length centers \<and>
           palette = map (\<lambda>i. Lab2BGR cv (CenterToLab (centers ! i)))
                         [0..<nat (KMeansPaletteSize ps (int (rows small * cols small)))] \<and>
           palette \<noteq> [] \<and> q = DitherLoop palette small"
proof -
  let ?K = "KMeansPaletteSize ps (int (rows small * cols small))"
  have K: "2 \<le> ?K" by (simp add: KMeansPaletteSize_def)
  from assms(3) obtain labels centers palette where
      km: "kmeans cv (LabSamples cv small) ?K = Some (labels, centers)"
      and p: "KMeansPalette cv centers ?K = Inr palette" and q: "q = DitherLoop palette small"
    unfolding QuantizeWithKMeansLabDither_valid [OF assms(1,2)]
    by (auto split: option.splits sum.splits)
  note P = KMeansPalette_Inr [OF p]
  have "length palette = nat ?K" by (subst P(2)) simp
  with K have "palette \<noteq> []" by auto
  with km p q P show ?thesis by blast
qed

lemma LabSamples_length: "length (LabSamples cv small) = rows small * cols small"
  by (simp add: LabSamples_def length_concat comp_def sum_list_triv)

lemma cell_index_less:
  fixes y x r c :: nat
  assumes "y < r" "x < c"
  shows "y * c + x < r * c"
proof -
  have "y * c + x < y * c + c" using assms(2) by simp
  also have "\<dots> = Suc y * c" by simp
  also have "\<dots> \<le> r * c" using assms(1) by (intro mult_le_mono1) simp
  finally show ?thesis .
qed

lemma QuantizeWithKMeansLab_returns:
  assumes "kmeans_ok cv" "is_8UC3 small" "2 \<le> rows small * cols small"
  shows "\<exists>q. QuantizeWithKMeansLab cv small ps = Inr q"
proof -
  let ?N = "rows small * cols small"
  let ?K = "KMeansPaletteSize ps (int ?N)"
  have ne: "\<not> empty_Mat small" using assms(3) by (rule two_cells_nonempty)
  have "2 \<le> int ?N" using assms(3) by linarith
  then have K: "0 < ?K" "?K \<le> int (length (LabSamples cv small))"
    by (simp_all add: KMeansPaletteSize_def LabSamples_length del: of_nat_mult)
  from assms(1) K obtain labels centers where
    km: "kmeans cv (LabSamples cv small) ?K = Some (labels, centers)"
    and ll: "length labels = ?N" and lab: "\<forall>l \<in> set labels. int l < ?K"
    and lc: "int (length centers) = ?K"
    unfolding kmeans_ok_def LabSamples_length by (metis LabSamples_length)
  have ok: "\<not> isl (LabelledCenter labels centers (y * cols small + x))"
    if "y < rows small" "x < cols small" for y x
  proof -
    have i: "y * cols small + x < length labels" using cell_index_less [OF that] ll by simp
    then have "int (labels ! (y * cols small + x)) < int (length centers)"
      using lab lc by (metis nth_mem)
    with i show ?thesis by (simp add: LabelledCenter_def)
  qed
  have rowok: "\<not> isl (sequence (map (\<lambda>x. LabelledCenter labels centers (y * cols small + x))
                        [0..<cols small]))" if "y < rows small" for y
    by (rule sequence_no_Inl) (use ok [OF that] in auto)
  have "\<not> isl (sequence (map (\<lambda>y. sequence (map (\<lambda>x. LabelledCenter labels centers (y * cols small + x))
                        [0..<cols small])) [0..<rows small]))"
    by (rule sequence_no_Inl) (use rowok in auto)
  then obtain ql where "sequence (map (\<lambda>y. sequence (map (\<lambda>x. LabelledCenter labels centers (y * cols small + x))
                        [0..<cols small])) [0..<rows small]) = Inr ql"
    using not_isl_Inr by blast
  then show ?thesis
    unfolding QuantizeWithKMeansLab_valid [OF ne assms(2)] km by auto
qed

lemma QuantizeWithKMeansLabDither_returns:
  assumes "kmeans_ok cv" "is_8UC3 small" "2 \<le> rows small * cols small"
  shows "\<exists>q. QuantizeWithKMeansLabDither cv small ps = Inr q"
proof -
  let ?N = "rows small * cols small"
  let ?K = "KMeansPaletteSize ps (int ?N)"
  have ne: "\<not> empty_Mat small" using assms(3) by (rule two_cells_nonempty)
  have "2 \<le> int ?N" using assms(3) by linarith
  then have K: "0 < ?K" "?K \<le> int (length (LabSamples cv small))"
    by (simp_all add: KMeansPaletteSize_def LabSamples_length del: of_nat_mult)
  from assms(1) K obtain labels centers where
    km: "kmeans cv (LabSamples cv small) ?K = Some (labels, centers)"
    and lc: "int (length centers) = ?K"
    unfolding kmeans_ok_def by metis
  have "\<not> isl (KMeansPalette cv centers ?K)"
    unfolding KMeansPalette_def by (rule sequence_no_Inl) (use lc in auto)
  then obtain pal where "KMeansPalette cv centers ?K = Inr pal"
    using not_isl_Inr by blast
  then show ?thesis
    unfolding QuantizeWithKMeansLabDither_valid [OF ne assms(2)] km by auto
qed

lemma PostProcess_header [simp]:
  "rows (PostProcess cv p out) = rows out" "cols (PostProcess cv p out) = cols out"
  by (simp_all add: PostProcess_def ApplyEdgeEnhancementInPlace_def ApplyPixelArtOutline_def Let_def)

lemma PostProcess_off: "\<not> edgeEnhance p \<Longrightarrow> \<not> outline p \<Longrightarrow> PostProcess cv p out = out"
  by (simp add: PostProcess_def)

lemma PreBlur_header [simp]:
  "rows (PreBlur cv p img) = rows img" "cols (PreBlur cv p img) = cols img"
  "depth (PreBlur cv p img) = depth img" "channels (PreBlur cv p img) = channels img"
  by (simp_all add: PreBlur_def Let_def)

lemma ClampedParams_simps [simp]:
  "blockSize (ClampedParams p) = ClampInt (blockSize p) 1 256"
  "paletteSize (ClampedParams p) = ClampInt (paletteSize p) 2 256"
  "preBlur (ClampedParams p) = preBlur p" "edgeEnhance (ClampedParams p) = edgeEnhance p"
  "dither (ClampedParams p) = dither p" "outline (ClampedParams p) = outline p"
  "outlineThickness (ClampedParams p) = outlineThickness p"
  "palettePreset (ClampedParams p) = palettePreset p"
  by (simp_all add: ClampedParams_def)

lemma Quantize_header:
  assumes "\<not> empty_Mat small" "is_8UC3 small" "Quantize cv p small = Inr q"
  shows "rows q = rows small \<and> cols q = cols small \<and> is_8UC3 q"
proof (cases "palettePreset p = Custom")
  case True
  show ?thesis
  proof (cases "dither p")
    case True
    with \<open>palettePreset p = Custom\<close> assms(3)
    have "QuantizeWithKMeansLabDither cv small (paletteSize p) = Inr q" by (simp add: Quantize_def)
    from QuantizeWithKMeansLabDither_eq [OF assms(1,2) this] assms(2)
    show ?thesis by (auto simp: is_8UC3_def)
  next
    case False
    with \<open>palettePreset p = Custom\<close> assms(3)
    have "QuantizeWithKMeansLab cv small (paletteSize p) = Inr q" by (simp add: Quantize_def)
    from QuantizeWithKMeansLab_header [OF assms(1,2) this] show ?thesis .
  qed
next
  case False
  show ?thesis
  proof (cases "dither p")
    case True
    with False assms(3) have "q = QuantizeWithFixedPaletteDither small (palettePreset p)"
      by (simp add: Quantize_def)
    then have "q = DitherLoop (GetPaletteColors (palettePreset p)) small"
      by (simp only: QuantizeWithFixedPaletteDither_eq [OF assms(1,2) False])
    then show ?thesis using assms(2) by (simp add: is_8UC3_def)
  next
    case nd: False
    with False assms(3) have "q = QuantizeWithFixedPalette small (palettePreset p)"
      by (simp add: Quantize_def)
    then show ?thesis
      using QuantizeWithFixedPalette_props(1-3) [OF assms(1,2) False] by simp
  qed
qed

lemma Quantize_returns:
  assumes "is_8UC3 small" "palettePreset p = Custom \<longrightarrow> kmeans_ok cv \<and> 2 \<le> rows small * cols small"
  shows "\<exists>q. Quantize cv p small = Inr q"
  using assms QuantizeWithKMeansLab_returns [of cv small "paletteSize p"]
    QuantizeWithKMeansLabDither_returns [of cv small "paletteSize p"]
  by (auto simp: Quantize_def)

text \<open>What Process does on a valid input, in one equation.\<close>

lemma Process_valid:
  assumes "\<not> empty_Mat img" "is_8UC3 img"
  shows "Process cv img params =
           (case Quantize cv (ClampedParams params)
                   (BuildBlockColorImageBGR (PreBlur cv (ClampedParams params) img)
                      (ClampInt (blockSize params) 1 256)) of
              Inl e \<Rightarrow> Inl e
            | Inr q \<Rightarrow> Inr (PostProcess cv (ClampedParams params)
                        (ExpandBlocksBGR q (rows img, cols img) (ClampInt (blockSize params) 1 256))))"
proof -
  let ?p = "ClampedParams params"
  let ?small = "BuildBlockColorImageBGR (PreBlur cv ?p img) (ClampInt (blockSize params) 1 256)"
  have ne: "\<not> empty_Mat (PreBlur cv ?p img)" using assms(1) by (simp add: empty_Mat_def)
  note sm = BuildBlockColorImageBGR_header [OF ne, of "ClampInt (blockSize params) 1 256"]
  have "\<not> empty_Mat q" if "Quantize cv ?p ?small = Inr q" for q
    using Quantize_header [OF sm(5) sm(3) that] sm(5) by (simp add: empty_Mat_def)
  then show ?thesis
    using assms sm(5) by (auto simp: Process_def Let_def split: sum.splits)
qed

section \<open>Facts about the parameters of the pipeline\<close>

lemma cv_plain_kmeans_ok: "kmeans_ok cv_plain"
  by (auto simp: kmeans_ok_def cv_plain_def)

lemma KMeansPaletteSize_bounds:
  "2 \<le> total' \<Longrightarrow> 2 \<le> KMeansPaletteSize ps total' \<and> KMeansPaletteSize ps total' \<le> total'"
  by (simp add: KMeansPaletteSize_def)

lemma nat_max_Clamp: "nat (max 1 (ClampInt b 1 256)) = nat (ClampInt b 1 256)"
  by (simp add: ClampInt_def)

lemma ClampInt_pos: "0 < nat (ClampInt b 1 256)"
  by (simp add: ClampInt_def)

section \<open>The block reducer computes truncated means\<close>

lemma filter_upt_interval:
  "filter (\<lambda>y. a \<le> y \<and> y < b) [0..<h] = [a..<min b h]"
proof (induction h)
  case 0
  then show ?case by simp
next
  case (Suc h)
  show ?case
  proof (cases "a \<le> h \<and> h < b")
    case True
    then have "min b (Suc h) = Suc h" "min b h = h" by simp_all
    with True Suc show ?thesis by simp
  next
    case False
    then have "min b (Suc h) = min b h \<or> (h < a \<and> h < b)" by (auto simp: min_def)
    with False Suc show ?thesis by (auto simp: min_def)
  qed
qed

lemma filter_product:
  "filter (\<lambda>(y, x). P y \<and> Q x) (List.product ys xs) = List.product (filter P ys) (filter Q xs)"
  by (induction ys) (auto simp: filter_map comp_def)

lemma filter_block_upt:
  assumes "0 < bs"
  shows "filter (\<lambda>y. y div bs = b) [0..<h] = [b * bs..<min (b * bs + bs) h]"
proof -
  have "(\<lambda>y. y div bs = b) = (\<lambda>y. b * bs \<le> y \<and> y < b * bs + bs)"
    using div_eq_block_iff [OF assms] by auto
  then show ?thesis by (simp only: filter_upt_interval)
qed

lemma spec_TilePositions_roi:
  assumes "0 < bs"
  shows "spec_TilePositions img bs by bx =
           List.product [by * bs..<min (by * bs + bs) (rows img)] [bx * bs..<min (bx * bs + bs) (cols img)]"
  by (simp only: spec_TilePositions_def filter_product filter_block_upt [OF assms])

lemma product_concat: "map f (List.product ys xs) = concat (map (\<lambda>y. map (\<lambda>x. f (y, x)) xs) ys)"
  by (induction ys) (simp_all add: comp_def)

lemma spec_TilePixels_roi:
  assumes "0 < bs"
  shows "spec_TilePixels img bs by bx =
           roi_pixels img (bx * bs) (by * bs) (min (bx * bs + bs) (cols img)) (min (by * bs + bs) (rows img))"
  by (simp add: spec_TilePixels_def spec_TilePositions_roi [OF assms] product_concat roi_pixels_def)

lemma ch_simps [simp]: "ch0 (a, b, c) = a" "ch1 (a, b, c) = b" "ch2 (a, b, c) = c"
  by (simp_all add: ch0_def ch1_def ch2_def)

lemma sum_list_uint_bounds:
  "0 \<le> sum_list (map (\<lambda>p. uint (ch p :: uchar)) ps) \<and>
   sum_list (map (\<lambda>p. uint (ch p :: uchar)) ps) \<le> 255 * int (length ps)"
proof (induction ps)
  case Nil
  then show ?case by simp
next
  case (Cons p ps)
  have "uint (ch p) < 256" using uint_bounded [of "ch p"] by simp
  moreover have "0 \<le> uint (ch p)" by simp
  ultimately show ?case using Cons by (simp add: algebra_simps)
qed

lemma double_to_uchar_mean:
  assumes "ps \<noteq> []"
  shows "uint (double_to_uchar (channel_mean ch ps))
           = sum_list (map (\<lambda>p. uint (ch p)) ps) div int (length ps)"
proof -
  let ?S = "sum_list (map (\<lambda>p. uint (ch p)) ps)"
  let ?n = "int (length ps)"
  have n: "0 < ?n" using assms by simp
  have S: "0 \<le> ?S" "?S \<le> 255 * ?n" using sum_list_uint_bounds [of ch ps] by simp_all
  have m: "channel_mean ch ps = of_int ?S / of_int ?n"
    using assms by (simp add: channel_mean_def)
  have nonneg: "(0::rat) \<le> of_int ?S / of_int ?n" using S(1) n by simp
  have fl: "\<lfloor>(of_int ?S / of_int ?n :: rat)\<rfloor> = ?S div ?n"
    by (rule floor_divide_of_int_eq)
  have lo: "0 \<le> ?S div ?n" using S(1) n by (simp add: pos_imp_zdiv_nonneg_iff)
  have "?S div ?n \<le> (255 * ?n) div ?n" using S(2) n by (intro zdiv_mono1) simp_all
  then have hi: "?S div ?n \<le> 255" using n by simp
  have "double_to_uchar (channel_mean ch ps) = (word_of_int (?S div ?n) :: uchar)"
    unfolding double_to_uchar_def float_to_int_def m by (simp only: fl if_P [OF nonneg])
  then have "uint (double_to_uchar (channel_mean ch ps)) = uint (word_of_int (?S div ?n) :: uchar)"
    by simp
  also have "\<dots> = ?S div ?n"
    using lo hi by (simp add: uint_word_of_int take_bit_int_eq_self)
  finally show ?thesis .
qed

lemma nth_grid: "y < h \<Longrightarrow> x < w \<Longrightarrow> map (\<lambda>y. map (f y) [0..<w]) [0..<h] ! y ! x = f y x"
  by simp

lemma BuildBlockColorImageBGR_at:
  assumes "\<not> empty_Mat img" "by < rows (BuildBlockColorImageBGR img bsz)"
    "bx < cols (BuildBlockColorImageBGR img bsz)"
  shows "at_Vec3b (BuildBlockColorImageBGR img bsz) by bx =
           (let m = cv_mean (spec_TilePixels img (nat (max 1 bsz)) by bx)
            in (double_to_uchar (fst m), double_to_uchar (fst (snd m)), double_to_uchar (snd (snd m))))"
proof -
  let ?bs = "nat (max 1 bsz)"
  let ?bw = "(cols img + ?bs - 1) div ?bs"
  let ?bh = "(rows img + ?bs - 1) div ?bs"
  let ?cell = "\<lambda>by bx. let m = cv_mean (spec_TilePixels img ?bs by bx)
            in (double_to_uchar (fst m), double_to_uchar (fst (snd m)), double_to_uchar (snd (snd m)))"
  have bs: "0 < ?bs" by simp
  note h = BuildBlockColorImageBGR_header(1,2) [OF assms(1), of bsz]
  have b: "by < ?bh" "bx < ?bw" using assms(2,3) by (simp_all only: h)
  have rd: "rowdata (BuildBlockColorImageBGR img bsz) = map (\<lambda>by. map (?cell by) [0..<?bw]) [0..<?bh]"
    using assms(1)
    by (simp add: BuildBlockColorImageBGR_def Let_def empty_Mat_def spec_TilePixels_roi [OF bs])
  show ?thesis
    unfolding at_Vec3b_def rd by (rule nth_grid [OF b])
qed

lemma spec_TilePixels_nonempty:
  assumes "0 < bs" "by < (rows img + bs - 1) div bs" "bx < (cols img + bs - 1) div bs"
  shows "spec_TilePixels img bs by bx \<noteq> []"
proof -
  have lt: "b * bs < h" if "b < (h + bs - 1) div bs" for b h :: nat
  proof -
    have "Suc b \<le> (h + bs - 1) div bs" using that by simp
    then have "Suc b * bs \<le> (h + bs - 1) div bs * bs" by (rule mult_le_mono1)
    also have "\<dots> \<le> h + bs - 1" by simp
    finally show ?thesis using assms(1) by simp
  qed
  from lt [OF assms(2)] lt [OF assms(3)] assms(1)
  have "0 < length (spec_TilePixels img bs by bx)"
    by (simp add: spec_TilePixels_def spec_TilePositions_roi [OF assms(1)])
  then show ?thesis by auto
qed

section \<open>The dithering loops\<close>

lemma modify_shape: "map length (modify d a b f) = map length d"
proof (cases "a < length d")
  case True
  then show ?thesis by (simp add: modify_def map_update list_update_same_conv)
next
  case False
  then show ?thesis by (simp add: modify_def list_update_beyond)
qed

lemma modify_other: "(a, b) \<noteq> (i, j) \<Longrightarrow> modify d a b f ! i ! j = d ! i ! j"
  by (cases "a < length d"; cases "a = i") (auto simp: modify_def list_update_beyond)

lemma modify_same:
  "a < length d \<Longrightarrow> b < length (d ! a) \<Longrightarrow> modify d a b f ! a ! b = f (d ! a ! b)"
  by (simp add: modify_def)

lemma shape_dims:
  assumes "map length d = replicate r c"
  shows "length d = r" and "i < r \<Longrightarrow> length (d ! i) = c"
proof -
  show l: "length d = r" using arg_cong [OF assms, of length] by simp
  show "length (d ! i) = c" if "i < r"
  proof -
    have "map length d ! i = replicate r c ! i" by (simp only: assms)
    then show ?thesis using that l by simp
  qed
qed

lemma wf_Mat_shape: "wf_Mat m \<longleftrightarrow> map length (rowdata m) = replicate (rows m) (cols m)"
proof
  assume w: "wf_Mat m"
  then have l: "length (rowdata m) = rows m" by (simp add: wf_Mat_def)
  show "map length (rowdata m) = replicate (rows m) (cols m)"
  proof (rule nth_equalityI)
    show "length (map length (rowdata m)) = length (replicate (rows m) (cols m))" using l by simp
    show "map length (rowdata m) ! i = replicate (rows m) (cols m) ! i"
      if "i < length (map length (rowdata m))" for i
      using that l wf_Mat_nth [OF w, of i] by simp
  qed
next
  assume s: "map length (rowdata m) = replicate (rows m) (cols m)"
  show "wf_Mat m"
    by (rule wf_MatI) (simp_all add: shape_dims [OF s])
qed

lemma ClampPixel_id: "ClampPixel p = p"
proof -
  have "int_to_uchar (ClampInt (uint v) 0 255) = v" for v :: uchar
  proof -
    have "uint v < 256" using uint_bounded [of v] by simp
    then have "ClampInt (uint v) 0 255 = uint v" by (simp add: ClampInt_def)
    then show ?thesis by (simp add: int_to_uchar_def)
  qed
  then show ?thesis by (cases p) (simp add: ClampPixel_def ch0_def ch1_def ch2_def)
qed

lemma clamp_trunc_commute:
  "ClampInt (float_to_int r) 0 255 = float_to_int (min 255 (max 0 r))"
proof -
  consider "r < 0" | "0 \<le> r" "r \<le> 255" | "255 < r" by linarith
  then show ?thesis
  proof cases
    case 1
    then have "\<lceil>r\<rceil> \<le> 0" by (simp add: ceiling_le_iff)
    with 1 show ?thesis by (simp add: ClampInt_def float_to_int_def)
  next
    case 2
    then have "0 \<le> \<lfloor>r\<rfloor>" "\<lfloor>r\<rfloor> \<le> 255" by (simp_all add: floor_le_iff le_floor_iff)
    with 2 show ?thesis by (simp add: ClampInt_def float_to_int_def)
  next
    case 3
    then have "255 \<le> \<lfloor>r\<rfloor>" by (simp add: le_floor_iff)
    with 3 show ?thesis by (simp add: ClampInt_def float_to_int_def)
  qed
qed

lemma AddError_spec: "AddError v e w = spec_AddError v e w"
  by (simp only: AddError_def spec_AddError_def clamp_trunc_commute)

lemma Diffuse_spec:
  "Diffuse err w = (\<lambda>p. (spec_AddError (ch0 p) (fst err) w, spec_AddError (ch1 p) (fst (snd err)) w,
                         spec_AddError (ch2 p) (snd (snd err)) w))"
  by (rule ext) (simp add: Diffuse_def AddError_spec)

lemma DitherCell_spec:
  assumes "y < nrows" "x < ncols"
  shows "DitherCell palette nrows ncols y x grid = spec_DitherStep palette nrows ncols (y, x) grid"
proof -
  have x1: "nat (int x - 1) = x - 1" by simp
  have x2: "nat (int x + 1) = x + 1" "nat (int y + 1) = y + 1" by simp_all
  show ?thesis
    using assms
    by (simp add: DitherCell_def spec_DitherStep_def spec_Recipients_def Let_def ClampPixel_id
        Diffuse_spec [symmetric] x1 nat_add_distrib)
qed

lemma fold_product:
  "fold f (List.product ys xs) = fold (\<lambda>y. fold (\<lambda>x. f (y, x)) xs) ys"
  by (induction ys) (simp_all add: fold_map comp_def)

lemma DitherLoop_spec: "rowdata (DitherLoop palette work) = spec_Dither palette work"
proof -
  have inner: "fold (DitherCell palette (rows work) (cols work) y) [0..<cols work] d
             = fold (\<lambda>x. spec_DitherStep palette (rows work) (cols work) (y, x)) [0..<cols work] d"
    if "y < rows work" for y d
    by (rule fold_cong [OF refl refl]) (simp add: DitherCell_spec [OF that] fun_eq_iff)
  have "fold (\<lambda>y. fold (DitherCell palette (rows work) (cols work) y) [0..<cols work]) [0..<rows work]
             (rowdata work)
      = fold (\<lambda>y. fold (\<lambda>x. spec_DitherStep palette (rows work) (cols work) (y, x)) [0..<cols work])
             [0..<rows work] (rowdata work)"
    by (rule fold_cong [OF refl refl]) (simp add: inner fun_eq_iff)
  then show ?thesis by (simp add: DitherLoop_def spec_Dither_def fold_product)
qed

lemma DitherCell_shape: "map length (DitherCell palette nrows ncols y x d) = map length d"
  by (simp add: DitherCell_def Let_def modify_shape)

lemma modify_other': "a \<noteq> i \<or> b \<noteq> j \<Longrightarrow> modify d a b f ! i ! j = d ! i ! j"
  by (rule modify_other) auto

lemma DitherCell_before:
  assumes "i < y \<or> (i = y \<and> j < x)"
  shows "DitherCell palette nrows ncols y x d ! i ! j = d ! i ! j"
  using assms by (auto simp: DitherCell_def Let_def modify_other')

lemma DitherCell_self:
  assumes "y < length d" "x < length (d ! y)"
  shows "DitherCell palette nrows ncols y x d ! y ! x = FindNearestPaletteColor (d ! y ! x) palette"
  using assms by (auto simp: DitherCell_def Let_def ClampPixel_id modify_other' modify_same)

lemma DitherRow_shape:
  "map length (fold (DitherCell palette nrows ncols y) xs d) = map length d"
  by (induction xs arbitrary: d) (simp_all add: DitherCell_shape)

lemma DitherRow_above:
  "i < y \<Longrightarrow> fold (DitherCell palette nrows ncols y) xs d ! i ! j = d ! i ! j"
  by (induction xs arbitrary: d) (simp_all add: DitherCell_before)

lemma DitherRow_done:
  assumes "map length d = replicate r c" "y < r" "palette \<noteq> []"
  shows "n \<le> c \<Longrightarrow> j < n \<Longrightarrow>
         fold (DitherCell palette nrows ncols y) [0..<n] d ! y ! j \<in> set palette"
proof (induction n)
  case 0
  then show ?case by simp
next
  case (Suc n)
  let ?prev = "fold (DitherCell palette nrows ncols y) [0..<n] d"
  have sh: "map length ?prev = replicate r c" by (simp only: DitherRow_shape assms(1))
  have eq: "fold (DitherCell palette nrows ncols y) [0..<Suc n] d
              = DitherCell palette nrows ncols y n ?prev" by simp
  show ?case
  proof (cases "j = n")
    case True
    have "y < length ?prev" "n < length (?prev ! y)"
      using shape_dims [OF sh] assms(2) Suc.prems(1) by simp_all
    from DitherCell_self [OF this] True show ?thesis
      by (simp only: eq FindNearestPaletteColor_mem [OF assms(3)])
  next
    case False
    with Suc.prems have j: "j < n" "n \<le> c" by simp_all
    have "DitherCell palette nrows ncols y n ?prev ! y ! j = ?prev ! y ! j"
      by (rule DitherCell_before) (simp add: j(1))
    with Suc.IH [OF j(2,1)] show ?thesis by (simp only: eq)
  qed
qed

lemma DitherAll_shape:
  "map length (fold (\<lambda>y. fold (DitherCell palette nrows ncols y) xs) ys d) = map length d"
  by (induction ys arbitrary: d) (simp_all add: DitherRow_shape)

lemma DitherAll_done:
  assumes "map length d = replicate r c" "palette \<noteq> []"
  shows "m \<le> r \<Longrightarrow> i < m \<Longrightarrow> j < c \<Longrightarrow>
         fold (\<lambda>y. fold (DitherCell palette nrows ncols y) [0..<c]) [0..<m] d ! i ! j \<in> set palette"
proof (induction m)
  case 0
  then show ?case by simp
next
  case (Suc m)
  let ?prev = "fold (\<lambda>y. fold (DitherCell palette nrows ncols y) [0..<c]) [0..<m] d"
  have sh: "map length ?prev = replicate r c" by (simp only: DitherAll_shape assms(1))
  have eq: "fold (\<lambda>y. fold (DitherCell palette nrows ncols y) [0..<c]) [0..<Suc m] d
              = fold (DitherCell palette nrows ncols m) [0..<c] ?prev" by simp
  show ?case
  proof (cases "i = m")
    case True
    have "m < r" using Suc.prems(1) by simp
    from DitherRow_done [OF sh this assms(2) le_refl Suc.prems(3)] True
    show ?thesis by (simp only: eq)
  next
    case False
    with Suc.prems have i: "i < m" "m \<le> r" by simp_all
    have "fold (DitherCell palette nrows ncols m) [0..<c] ?prev ! i ! j = ?prev ! i ! j"
      using i(1) by (rule DitherRow_above)
    with Suc.IH [OF i(2,1) Suc.prems(3)] show ?thesis by (simp only: eq)
  qed
qed

lemma DitherLoop_wf: "wf_Mat work \<Longrightarrow> wf_Mat (DitherLoop palette work)"
  by (simp add: wf_Mat_shape DitherLoop_def DitherAll_shape)

lemma DitherLoop_palette:
  assumes "wf_Mat work" "palette \<noteq> []" "y < rows work" "x < cols work"
  shows "at_Vec3b (DitherLoop palette work) y x \<in> set palette"
  using DitherAll_done [OF assms(1) [unfolded wf_Mat_shape] assms(2) le_refl assms(3,4)]
  by (simp add: at_Vec3b_def DitherLoop_def)

section \<open>The claims\<close>

text \<open>
  C1. On a non-empty 8-bit 3-channel image, every image that \<open>Process\<close>
  returns has the rows and columns of the input, for every parameter record and
  whatever the OpenCV primitives compute; and \<open>Process\<close> does return an image
  when \<open>cv::kmeans\<close> keeps its contract, unless the preset is \<open>Custom\<close> and
  the tile grid has a single cell (where \<open>cv::kmeans\<close> is asked for more
  clusters than there are samples).
\<close>

theorem C1_dimensions:
  assumes "\<not> empty_Mat img" "is_8UC3 img"
  shows "(\<forall>out. Process cv img params = Inr out \<longrightarrow> rows out = rows img \<and> cols out = cols img) \<and>
         (kmeans_ok cv \<and>
          (palettePreset params = Custom \<longrightarrow>
             2 \<le> ((rows img + nat (ClampInt (blockSize params) 1 256) - 1)
                     div nat (ClampInt (blockSize params) 1 256))
                 * ((cols img + nat (ClampInt (blockSize params) 1 256) - 1)
                     div nat (ClampInt (blockSize params) 1 256)))
          \<longrightarrow> (\<exists>out. Process cv img params = Inr out))"
proof -
  let ?p = "ClampedParams params"
  let ?b = "ClampInt (blockSize params) 1 256"
  let ?small = "BuildBlockColorImageBGR (PreBlur cv ?p img) ?b"
  have ne: "\<not> empty_Mat (PreBlur cv ?p img)" using assms(1) by (simp add: empty_Mat_def)
  note sm = BuildBlockColorImageBGR_header [OF ne, of ?b, unfolded nat_max_Clamp PreBlur_header]
  note P = Process_valid [OF assms, of cv params]
  have dims: "rows out = rows img \<and> cols out = cols img" if "Process cv img params = Inr out" for out
  proof -
    from that obtain q where q: "Quantize cv ?p ?small = Inr q"
      and out: "out = PostProcess cv ?p (ExpandBlocksBGR q (rows img, cols img) ?b)"
      unfolding P by (auto split: sum.splits)
    from Quantize_header [OF sm(5) sm(3) q] sm(5)
    have "\<not> empty_Mat q" "is_8UC3 q" by (simp_all add: empty_Mat_def)
    from ExpandBlocksBGR_props(1,2) [OF this] show ?thesis by (simp add: out)
  qed
  have ret: "\<exists>out. Process cv img params = Inr out"
    if "kmeans_ok cv" "palettePreset params = Custom \<longrightarrow>
             2 \<le> ((rows img + nat ?b - 1) div nat ?b) * ((cols img + nat ?b - 1) div nat ?b)"
  proof -
    have "\<exists>q. Quantize cv ?p ?small = Inr q"
      by (rule Quantize_returns [OF sm(3)]) (use that sm(1,2) in simp)
    then show ?thesis unfolding P by auto
  qed
  from dims ret show ?thesis by blast
qed

theorem C1_witness:
  "\<not> empty_Mat quadrants \<and> is_8UC3 quadrants \<and> kmeans_ok cv_plain \<and>
   (\<exists>out. Process cv_plain quadrants (defaults\<lparr>blockSize := 1\<rparr>) = Inr out \<and>
      rows out = 2 \<and> cols out = 2)"
proof -
  have v: "\<not> empty_Mat quadrants" "is_8UC3 quadrants"
    by (simp_all add: quadrants_def empty_Mat_def is_8UC3_def)
  from C1_dimensions [OF v, of cv_plain "defaults\<lparr>blockSize := 1\<rparr>"] cv_plain_kmeans_ok v
  show ?thesis by (auto simp: quadrants_def defaults_def ClampInt_def)
qed

text \<open>
  C2. An input image that is empty, has zero width or height, or has a channel
  count other than 3 makes \<open>Process\<close> return the null matrix, normally (no
  exception), whatever the parameters.
\<close>

theorem C2_invalid_input:
  "rows img = 0 \<or> cols img = 0 \<or> channels img \<noteq> 3 \<Longrightarrow> Process cv img params = Inr Mat_null"
  by (auto simp: Process_def empty_Mat_def is_8UC3_def)

theorem C2_witness:
  "channels gray1 \<noteq> 3 \<and> Process cv_plain gray1 defaults = Inr Mat_null"
  using C2_invalid_input [of gray1 cv_plain defaults] by (simp add: gray1_def)

text \<open>
  C3. As stated the claim fails: with \<open>outline\<close> set, the outline stage darkens
  edge pixels after the quantisation, and the darkened colour need not be in the
  palette. On the black and white image with the CGA preset, the white pixel
  comes out as (165, 165, 165).
\<close>

theorem C3_counterexample:
  "\<not> empty_Mat black_white \<and> is_8UC3 black_white \<and>
   \<not> dither outlined \<and> palettePreset outlined = CGA \<and>
   Process cv_plain black_white outlined =
     Inr \<lparr>rows = 1, cols = 2, depth = CV_8U, channels = 3,
          rowdata = [ [(0, 0, 0), (165, 165, 165)]]\<rparr> \<and>
   (165, 165, 165) \<notin> set (GetPaletteColors CGA)"
  by code_simp

text \<open>
  C3, amended. On a non-empty 8-bit 3-channel image, with \<open>dither\<close>,
  \<open>edgeEnhance\<close> and \<open>outline\<close> all off and a fixed preset, \<open>Process\<close> returns
  an image of the size of the input, each of whose pixels is an entry of the
  palette of the preset.
\<close>

theorem C3_amended:
  assumes "\<not> empty_Mat img" "is_8UC3 img"
    and "\<not> dither params" "palettePreset params \<noteq> Custom"
    and "\<not> edgeEnhance params" "\<not> outline params"
  shows "\<exists>out. Process cv img params = Inr out \<and> rows out = rows img \<and> cols out = cols img \<and>
           wf_Mat out \<and>
           (\<forall>y<rows out. \<forall>x<cols out.
              at_Vec3b out y x \<in> set (GetPaletteColors (palettePreset params)))"
proof -
  let ?p = "ClampedParams params"
  let ?b = "ClampInt (blockSize params) 1 256"
  let ?work = "PreBlur cv ?p img"
  let ?small = "BuildBlockColorImageBGR ?work ?b"
  let ?pal = "GetPaletteColors (palettePreset params)"
  let ?q = "QuantizeWithFixedPalette ?small (palettePreset params)"
  let ?out = "ExpandBlocksBGR ?q (rows img, cols img) ?b"
  have ne: "\<not> empty_Mat ?work" using assms(1) by (simp add: empty_Mat_def)
  note sm = BuildBlockColorImageBGR_header [OF ne, of ?b, unfolded nat_max_Clamp PreBlur_header]
  note qp = QuantizeWithFixedPalette_props [OF sm(5) sm(3) assms(4)]
  have qne: "\<not> empty_Mat ?q" using sm(5) qp(1,2) by (simp add: empty_Mat_def)
  note ex = ExpandBlocksBGR_props [OF qne qp(3), where h = "rows img" and w = "cols img" and bsz = ?b, unfolded nat_max_Clamp]
  have "Quantize cv ?p ?small = Inr ?q" using assms(3,4) by (simp add: Quantize_def)
  then have P: "Process cv img params = Inr ?out"
    using assms(5,6) by (simp add: Process_valid [OF assms(1,2)] PostProcess_off)
  have pal: "?pal \<noteq> []" using assms(4) by (rule GetPaletteColors_nonempty)
  have "at_Vec3b ?out y x \<in> set ?pal" if "y < rows img" "x < cols img" for y x
  proof -
    have cy: "y div nat ?b < rows ?small" unfolding sm(1)
      using ClampInt_pos that(1) by (rule ceil_div_covers)
    have cx: "x div nat ?b < cols ?small" unfolding sm(2)
      using ClampInt_pos that(2) by (rule ceil_div_covers)
    have "at_Vec3b ?out y x = at_Vec3b ?q (y div nat ?b) (x div nat ?b)"
      using ex(5) [OF that] cy cx by (simp add: qp(1,2))
    also have "\<dots> = FindNearestPaletteColor (at_Vec3b ?small (y div nat ?b) (x div nat ?b)) ?pal"
      using cy cx by (rule qp(4))
    finally show ?thesis using FindNearestPaletteColor_mem [OF pal] by simp
  qed
  then show ?thesis using P ex(1,2,4) by simp
qed

theorem C3_witness:
  "\<not> empty_Mat quadrants \<and> is_8UC3 quadrants \<and>
   (\<exists>out. Process cv_plain quadrants (outlined\<lparr>outline := False\<rparr>) = Inr out \<and>
      at_Vec3b out 0 1 \<in> set (GetPaletteColors CGA))"
proof -
  have v: "\<not> empty_Mat quadrants" "is_8UC3 quadrants"
    by (simp_all add: quadrants_def empty_Mat_def is_8UC3_def)
  have "rows quadrants = 2" "cols quadrants = 2" by (simp_all add: quadrants_def)
  with C3_amended [OF v, of "outlined\<lparr>outline := False\<rparr>" cv_plain] v
  show ?thesis by (auto simp: outlined_def)
qed

text \<open>
  C4. On a well-formed, non-empty 8-bit 3-channel tile grid, both dithering
  functions run the loops on a copy of the grid, and these loops are the error
  diffusion of the specification: every cell is visited once, in row-major order
  (the list of visited cells has no repetition); at each cell the value, which is
  within [0, 255], is replaced by its nearest palette colour, and the error times
  7/16, 3/16, 5/16, 1/16 is added to the right, below-left, below and below-right
  neighbours inside the grid, each clamped to [0, 255] as it is stored (the
  fraction of the sum is dropped), the neighbours outside the grid being skipped.
  So every cell of the result is a palette entry: an entry of the table for a
  fixed preset; for \<open>Custom\<close>, an entry of the palette that the function builds
  from the centres \<open>cv::kmeans\<close> returned for the Lab samples of the grid (centre
  \<open>i\<close>, rounded, clamped and converted back to BGR, for each \<open>i\<close> below the
  cluster count), which is not empty and is the palette the loops ran with. For
  \<open>Custom\<close> a result is returned when \<open>cv::kmeans\<close> keeps its contract and the grid
  has at least two cells.
\<close>

theorem C4_dithering:
  assumes "wf_Mat small" "\<not> empty_Mat small" "is_8UC3 small"
  shows "(preset \<noteq> Custom \<longrightarrow>
            rowdata (QuantizeWithFixedPaletteDither small preset)
              = spec_Dither (GetPaletteColors preset) small \<and>
            wf_Mat (QuantizeWithFixedPaletteDither small preset) \<and>
            (\<forall>y<rows small. \<forall>x<cols small.
               at_Vec3b (QuantizeWithFixedPaletteDither small preset) y x
                 \<in> set (GetPaletteColors preset))) \<and>
         (\<forall>out. QuantizeWithKMeansLabDither cv small ps = Inr out \<longrightarrow>
            (\<exists>labels centers palette.
               kmeans cv (LabSamples cv small) (KMeansPaletteSize ps (int (rows small * cols small)))
                 = Some (labels, centers) \<and>
               KMeansPalette cv centers (KMeansPaletteSize ps (int (rows small * cols small)))
                 = Inr palette \<and>
               nat (KMeansPaletteSize ps (int (rows small * cols small))) \<le> length centers \<and>
               palette = map (\<lambda>i. Lab2BGR cv (CenterToLab (centers ! i)))
                             [0..<nat (KMeansPaletteSize ps (int (rows small * cols small)))] \<and>
               palette \<noteq> [] \<and> rowdata out = spec_Dither palette small \<and> wf_Mat out \<and>
               rows out = rows small \<and> cols out = cols small \<and>
               (\<forall>y<rows small. \<forall>x<cols small. at_Vec3b out y x \<in> set palette))) \<and>
         (kmeans_ok cv \<and> 2 \<le> rows small * cols small \<longrightarrow>
            (\<exists>out. QuantizeWithKMeansLabDither cv small ps = Inr out)) \<and>
         distinct (List.product [0..<rows small] [0..<cols small])"
proof -
  let ?K = "KMeansPaletteSize ps (int (rows small * cols small))"
  have loop: "rowdata (DitherLoop palette small) = spec_Dither palette small \<and>
              wf_Mat (DitherLoop palette small) \<and>
              (\<forall>y<rows small. \<forall>x<cols small. at_Vec3b (DitherLoop palette small) y x \<in> set palette)"
    if "palette \<noteq> []" for palette
    using DitherLoop_spec [of palette small] DitherLoop_wf [OF assms(1), of palette]
      DitherLoop_palette [OF assms(1) that]
    by blast
  have fixed: "rowdata (QuantizeWithFixedPaletteDither small preset)
              = spec_Dither (GetPaletteColors preset) small \<and>
            wf_Mat (QuantizeWithFixedPaletteDither small preset) \<and>
            (\<forall>y<rows small. \<forall>x<cols small.
               at_Vec3b (QuantizeWithFixedPaletteDither small preset) y x
                 \<in> set (GetPaletteColors preset))" if "preset \<noteq> Custom"
    unfolding QuantizeWithFixedPaletteDither_eq [OF assms(2,3) that]
    by (rule loop [OF GetPaletteColors_nonempty [OF that]])
  have km: "\<exists>labels centers palette.
               kmeans cv (LabSamples cv small) ?K = Some (labels, centers) \<and>
               KMeansPalette cv centers ?K = Inr palette \<and>
               nat ?K \<le> length centers \<and>
               palette = map (\<lambda>i. Lab2BGR cv (CenterToLab (centers ! i))) [0..<nat ?K] \<and>
               palette \<noteq> [] \<and> rowdata out = spec_Dither palette small \<and> wf_Mat out \<and>
               rows out = rows small \<and> cols out = cols small \<and>
               (\<forall>y<rows small. \<forall>x<cols small. at_Vec3b out y x \<in> set palette)"
    if "QuantizeWithKMeansLabDither cv small ps = Inr out" for out
  proof -
    from QuantizeWithKMeansLabDither_palette [OF assms(2,3) that]
    obtain labels centers palette where
      p: "kmeans cv (LabSamples cv small) ?K = Some (labels, centers)"
         "KMeansPalette cv centers ?K = Inr palette"
         "nat ?K \<le> length centers"
         "palette = map (\<lambda>i. Lab2BGR cv (CenterToLab (centers ! i))) [0..<nat ?K]"
         "palette \<noteq> []" "out = DitherLoop palette small"
      by blast
    have h: "rows out = rows small" "cols out = cols small" by (simp_all add: p(6))
    have l: "rowdata out = spec_Dither palette small" "wf_Mat out"
      "\<forall>y<rows small. \<forall>x<cols small. at_Vec3b out y x \<in> set palette"
      unfolding p(6) using loop [OF p(5)] by blast+
    from p(1-5) l h show ?thesis by blast
  qed
  have ret: "\<exists>out. QuantizeWithKMeansLabDither cv small ps = Inr out"
    if "kmeans_ok cv" "2 \<le> rows small * cols small"
    using that assms(3) by (intro QuantizeWithKMeansLabDither_returns)
  have "distinct (List.product [0..<rows small] [0..<cols small])"
    by (simp add: distinct_product)
  with fixed km ret show ?thesis by blast
qed

theorem C4_witness:
  "wf_Mat gradient \<and> \<not> empty_Mat gradient \<and> is_8UC3 gradient \<and>
   kmeans_ok cv_plain \<and> 2 \<le> rows gradient * cols gradient \<and>
   rowdata (QuantizeWithFixedPaletteDither gradient GameBoyPocket)
     = [ [(15, 15, 15), (79, 79, 79), (163, 163, 163)],
        [(79, 79, 79), (163, 163, 163), (163, 163, 163)]] \<and>
   at_Vec3b (QuantizeWithFixedPaletteDither gradient GameBoyPocket) 1 2
     \<in> set (GetPaletteColors GameBoyPocket) \<and>
   (\<exists>out. QuantizeWithKMeansLabDither cv_plain gradient 16 = Inr out \<and>
      rowdata out = spec_Dither (replicate 6 (40, 40, 40)) gradient \<and>
      at_Vec3b out 1 2 = (40, 40, 40))"
proof -
  have v: "wf_Mat gradient" "\<not> empty_Mat gradient" "is_8UC3 gradient"
    by (simp_all add: gradient_def wf_Mat_def empty_Mat_def is_8UC3_def)
  have d: "(1::nat) < rows gradient" "(2::nat) < cols gradient" "2 \<le> rows gradient * cols gradient"
    by (simp_all add: gradient_def)
  have s: "spec_Dither (GetPaletteColors GameBoyPocket) gradient
             = [ [(15, 15, 15), (79, 79, 79), (163, 163, 163)],
                [(79, 79, 79), (163, 163, 163), (163, 163, 163)]]"
    by code_simp
  have K: "KMeansPaletteSize 16 (int (rows gradient * cols gradient)) = 6"
    by (simp add: KMeansPaletteSize_def gradient_def)
  have k: "kmeans cv_plain (LabSamples cv_plain gradient) 6
             = Some (replicate 6 0, replicate 6 (40, 40, 40))"
    by code_simp
  have pal: "map (\<lambda>i. Lab2BGR cv_plain (CenterToLab (replicate 6 (40, 40, 40) ! i))) [0..<nat 6]
               = replicate 6 (40, 40, 40)"
    by code_simp
  have p: "GameBoyPocket \<noteq> Custom" by simp
  note C4 = C4_dithering [OF v, of GameBoyPocket cv_plain 16, unfolded K]
  from C4 p have "rowdata (QuantizeWithFixedPaletteDither gradient GameBoyPocket)
     = spec_Dither (GetPaletteColors GameBoyPocket) gradient" by blast
  moreover from C4 p d have "at_Vec3b (QuantizeWithFixedPaletteDither gradient GameBoyPocket) 1 2
     \<in> set (GetPaletteColors GameBoyPocket)" by blast
  moreover from C4 cv_plain_kmeans_ok d(3)
  obtain out where out: "QuantizeWithKMeansLabDither cv_plain gradient 16 = Inr out" by blast
  from C4 out obtain labels centers palette where
    q: "kmeans cv_plain (LabSamples cv_plain gradient) 6 = Some (labels, centers)"
       "palette = map (\<lambda>i. Lab2BGR cv_plain (CenterToLab (centers ! i))) [0..<nat 6]"
       "rowdata out = spec_Dither palette gradient"
       "\<forall>y<rows gradient. \<forall>x<cols gradient. at_Vec3b out y x \<in> set palette"
    by blast
  from q(1) k have "centers = replicate 6 (40, 40, 40)" by simp
  with q(2) pal have pe: "palette = replicate 6 (40, 40, 40)" by simp
  from q(4) d have "at_Vec3b out 1 2 \<in> set palette" by blast
  with pe have "at_Vec3b out 1 2 = (40, 40, 40)" by simp
  with out q(3) pe have "\<exists>out. QuantizeWithKMeansLabDither cv_plain gradient 16 = Inr out \<and>
      rowdata out = spec_Dither (replicate 6 (40, 40, 40)) gradient \<and>
      at_Vec3b out 1 2 = (40, 40, 40)" by blast
  ultimately show ?thesis using v d(3) cv_plain_kmeans_ok by (simp only: s) simp
qed

text \<open>
  C5. As stated the claim fails: the mean is not rounded to the nearest integer,
  its fraction is dropped. A tile with the channel values 0, 1, 1 has mean 2/3,
  whose nearest integer is 1, and the block reducer gives 0.
\<close>

theorem C5_counterexample:
  "BuildBlockColorImageBGR thirds 3 =
     \<lparr>rows = 1, cols = 1, depth = CV_8U, channels = 3, rowdata = [ [(0, 0, 0)]]\<rparr> \<and>
   spec_TilePixels thirds 3 0 0 = [(0, 0, 0), (1, 1, 1), (1, 1, 1)] \<and>
   cv_mean (spec_TilePixels thirds 3 0 0) = (2 / 3, 2 / 3, 2 / 3) \<and>
   uint (ch0 (at_Vec3b (BuildBlockColorImageBGR thirds 3) 0 0))
     \<noteq> round (channel_mean ch0 (spec_TilePixels thirds 3 0 0))"
  by code_simp

text \<open>
  C5, amended. For a non-empty image and a positive block size, the tile grid has
  \<open>ceil(rows / blockSize)\<close> rows and \<open>ceil(cols / blockSize)\<close> columns, and in
  each cell each channel is the arithmetic mean of that channel over the pixels of
  the (possibly truncated) tile with its fraction dropped: the sum of the values
  divided, as integers, by the number of pixels of the tile.
\<close>

theorem C5_amended:
  assumes "\<not> empty_Mat img" "0 < bsz"
    and "by < rows (BuildBlockColorImageBGR img bsz)" "bx < cols (BuildBlockColorImageBGR img bsz)"
  shows "rows (BuildBlockColorImageBGR img bsz) = (rows img + nat bsz - 1) div nat bsz \<and>
         cols (BuildBlockColorImageBGR img bsz) = (cols img + nat bsz - 1) div nat bsz \<and>
         spec_TilePixels img (nat bsz) by bx \<noteq> [] \<and>
         (\<forall>ch \<in> {ch0, ch1, ch2}.
            uint (ch (at_Vec3b (BuildBlockColorImageBGR img bsz) by bx))
              = sum_list (map (\<lambda>p. uint (ch p)) (spec_TilePixels img (nat bsz) by bx))
                  div int (length (spec_TilePixels img (nat bsz) by bx)))"
proof -
  have bs: "nat (max 1 bsz) = nat bsz" "0 < nat bsz" using assms(2) by simp_all
  note h = BuildBlockColorImageBGR_header(1,2) [OF assms(1), of bsz, unfolded bs]
  have ne: "spec_TilePixels img (nat bsz) by bx \<noteq> []"
    using assms(3,4) unfolding h by (intro spec_TilePixels_nonempty bs(2))
  note cell = BuildBlockColorImageBGR_at [OF assms(1,3,4), unfolded bs]
  have "uint (ch0 (at_Vec3b (BuildBlockColorImageBGR img bsz) by bx))
          = sum_list (map (\<lambda>p. uint (ch0 p)) (spec_TilePixels img (nat bsz) by bx))
              div int (length (spec_TilePixels img (nat bsz) by bx))"
    by (simp add: cell Let_def cv_mean_def double_to_uchar_mean [OF ne, of ch0])
  moreover have "uint (ch1 (at_Vec3b (BuildBlockColorImageBGR img bsz) by bx))
          = sum_list (map (\<lambda>p. uint (ch1 p)) (spec_TilePixels img (nat bsz) by bx))
              div int (length (spec_TilePixels img (nat bsz) by bx))"
    by (simp add: cell Let_def cv_mean_def double_to_uchar_mean [OF ne, of ch1])
  moreover have "uint (ch2 (at_Vec3b (BuildBlockColorImageBGR img bsz) by bx))
          = sum_list (map (\<lambda>p. uint (ch2 p)) (spec_TilePixels img (nat bsz) by bx))
              div int (length (spec_TilePixels img (nat bsz) by bx))"
    by (simp add: cell Let_def cv_mean_def double_to_uchar_mean [OF ne, of ch2])
  ultimately show ?thesis using h ne by simp
qed

theorem C5_witness:
  "\<not> empty_Mat quadrants \<and> (0::int) < 2 \<and>
   0 < rows (BuildBlockColorImageBGR quadrants 2) \<and> 0 < cols (BuildBlockColorImageBGR quadrants 2) \<and>
   at_Vec3b (BuildBlockColorImageBGR quadrants 2) 0 0 = (137, 140, 185)"
proof -
  have v: "\<not> empty_Mat quadrants" "(0::int) < 2"
    "0 < rows (BuildBlockColorImageBGR quadrants 2)" "0 < cols (BuildBlockColorImageBGR quadrants 2)"
    by (simp_all add: quadrants_def empty_Mat_def BuildBlockColorImageBGR_def Let_def)
  have tp: "spec_TilePixels quadrants 2 0 0
              = [(10, 20, 30), (90, 250, 240), (250, 80, 250), (200, 210, 220)]"
    by code_simp
  from C5_amended [OF v]
  have "uint (ch0 (at_Vec3b (BuildBlockColorImageBGR quadrants 2) 0 0)) = 137"
       "uint (ch1 (at_Vec3b (BuildBlockColorImageBGR quadrants 2) 0 0)) = 140"
       "uint (ch2 (at_Vec3b (BuildBlockColorImageBGR quadrants 2) 0 0)) = 185"
    by (simp_all add: tp)
  then have "at_Vec3b (BuildBlockColorImageBGR quadrants 2) 0 0 = (137, 140, 185)"
    by (cases "at_Vec3b (BuildBlockColorImageBGR quadrants 2) 0 0")
       (simp add: word_uint_eq_iff)
  with v show ?thesis by blast
qed

text \<open>
  C6. The table of the NES preset has 56 entries, not 54, and is not free of
  duplicates: black is at positions 13 and 14.
\<close>

theorem C6_NES_table:
  "length (GetPaletteColors NES) = 56 \<and> \<not> distinct (GetPaletteColors NES) \<and>
   GetPaletteColors NES ! 13 = (0, 0, 0) \<and> GetPaletteColors NES ! 14 = (0, 0, 0)"
  by (simp add: GetPaletteColors_def)

text \<open>
  C7. When the clamped block size is at least the width and the height of a
  non-empty 8-bit 3-channel image, the block reducer gives a grid of one row and
  one column; and with \<open>dither\<close>, \<open>outline\<close> and \<open>edgeEnhance\<close> off, every
  image that \<open>Process\<close> returns has the size of the input and one colour in all
  its pixels. \<open>Process\<close> does return an image for every fixed preset; for
  \<open>Custom\<close> that depends on what \<open>cv::kmeans\<close> does when asked for two
  clusters of one sample.
\<close>

theorem C7_single_tile:
  assumes "\<not> empty_Mat img" "is_8UC3 img"
    and "int (max (rows img) (cols img)) \<le> ClampInt (blockSize params) 1 256"
  shows "rows (BuildBlockColorImageBGR (PreBlur cv (ClampedParams params) img)
                 (blockSize (ClampedParams params))) = 1 \<and>
         cols (BuildBlockColorImageBGR (PreBlur cv (ClampedParams params) img)
                 (blockSize (ClampedParams params))) = 1 \<and>
         (\<not> dither params \<and> \<not> outline params \<and> \<not> edgeEnhance params \<longrightarrow>
            (\<forall>out. Process cv img params = Inr out \<longrightarrow>
               rows out = rows img \<and> cols out = cols img \<and>
               (\<exists>c. \<forall>y<rows img. \<forall>x<cols img. at_Vec3b out y x = c)) \<and>
            (palettePreset params \<noteq> Custom \<longrightarrow> (\<exists>out. Process cv img params = Inr out)))"
proof -
  let ?p = "ClampedParams params"
  let ?b = "ClampInt (blockSize params) 1 256"
  let ?work = "PreBlur cv ?p img"
  let ?small = "BuildBlockColorImageBGR ?work ?b"
  have ne: "\<not> empty_Mat ?work" using assms(1) by (simp add: empty_Mat_def)
  note sm = BuildBlockColorImageBGR_header [OF ne, of ?b, unfolded nat_max_Clamp PreBlur_header]
  have pos: "0 < rows img" "0 < cols img" using assms(1) by (simp_all add: empty_Mat_def)
  have le: "rows img \<le> nat ?b" "cols img \<le> nat ?b" using assms(3) by linarith+
  have one: "rows ?small = 1" "cols ?small = 1"
    unfolding sm(1,2) using ceil_div_one [OF pos(1) le(1)] ceil_div_one [OF pos(2) le(2)] by simp_all
  have solid: "rows out = rows img \<and> cols out = cols img \<and>
               (\<exists>c. \<forall>y<rows img. \<forall>x<cols img. at_Vec3b out y x = c)"
    if off: "\<not> outline params" "\<not> edgeEnhance params" and out: "Process cv img params = Inr out"
    for out
  proof -
    from out obtain q where q: "Quantize cv ?p ?small = Inr q"
      and o: "out = ExpandBlocksBGR q (rows img, cols img) ?b"
      unfolding Process_valid [OF assms(1,2)] using off
      by (auto simp: PostProcess_off split: sum.splits)
    from Quantize_header [OF sm(5) sm(3) q] one
    have qh: "rows q = 1" "cols q = 1" "is_8UC3 q" by simp_all
    then have qne: "\<not> empty_Mat q" by (simp add: empty_Mat_def)
    note ex = ExpandBlocksBGR_props [OF qne qh(3), where h = "rows img" and w = "cols img" and bsz = ?b, unfolded nat_max_Clamp]
    have "at_Vec3b out y x = at_Vec3b q 0 0" if "y < rows img" "x < cols img" for y x
      using ex(5) [OF that] div_zero_block [OF that(1) le(1)] div_zero_block [OF that(2) le(2)]
      by (simp add: o qh)
    then show ?thesis using ex(1,2) o by blast
  qed
  have ret: "\<exists>out. Process cv img params = Inr out" if "palettePreset params \<noteq> Custom"
  proof -
    have "\<exists>q. Quantize cv ?p ?small = Inr q"
      by (rule Quantize_returns [OF sm(3)]) (use that in simp)
    then show ?thesis unfolding Process_valid [OF assms(1,2)] by auto
  qed
  from one solid ret show ?thesis by (simp only: ClampedParams_simps) blast
qed


theorem C7_witness:
  "\<not> empty_Mat quadrants \<and> is_8UC3 quadrants \<and>
   int (max (rows quadrants) (cols quadrants))
     \<le> ClampInt (blockSize (outlined\<lparr>blockSize := 2, outline := False\<rparr>)) 1 256 \<and>
   (\<exists>out c. Process cv_plain quadrants (outlined\<lparr>blockSize := 2, outline := False\<rparr>) = Inr out \<and>
      at_Vec3b out 0 0 = c \<and> at_Vec3b out 0 1 = c \<and> at_Vec3b out 1 0 = c \<and> at_Vec3b out 1 1 = c)"
proof -
  let ?P = "outlined\<lparr>blockSize := 2, outline := False\<rparr>"
  have v: "\<not> empty_Mat quadrants" "is_8UC3 quadrants"
    by (simp_all add: quadrants_def empty_Mat_def is_8UC3_def)
  have b: "int (max (rows quadrants) (cols quadrants)) \<le> ClampInt (blockSize ?P) 1 256"
    by (simp add: quadrants_def outlined_def ClampInt_def)
  have f: "\<not> dither ?P \<and> \<not> outline ?P \<and> \<not> edgeEnhance ?P" "palettePreset ?P \<noteq> Custom"
    by (simp_all add: outlined_def)
  have d: "(0::nat) < rows quadrants" "(1::nat) < rows quadrants"
    "(0::nat) < cols quadrants" "(1::nat) < cols quadrants"
    by (simp_all add: quadrants_def)
  note C7 = C7_single_tile [OF v b, of cv_plain, THEN conjunct2, THEN conjunct2, rule_format, OF f(1)]
  from C7 [THEN conjunct2, rule_format, OF f(2)]
  obtain out where out: "Process cv_plain quadrants ?P = Inr out" by blast
  from C7 [THEN conjunct1, rule_format, OF out]
  obtain c where c: "\<forall>y<rows quadrants. \<forall>x<cols quadrants. at_Vec3b out y x = c" by blast
  from c d have "at_Vec3b out 0 0 = c" "at_Vec3b out 0 1 = c" "at_Vec3b out 1 0 = c"
    "at_Vec3b out 1 1 = c" by blast+
  with out v b show ?thesis by blast
qed

text \<open>
  C8. With a tile grid of a single sample, the clustering branch asks
  \<open>cv::kmeans\<close> for two clusters: the cluster count is not clamped down to the
  number of samples. On the one-pixel image with the default parameters, and
  with a \<open>kmeans\<close> that throws when there are more clusters than samples,
  \<open>Process\<close> ends in that exception.
\<close>

theorem C8_single_sample_two_clusters:
  "length (LabSamples cv_plain (BuildBlockColorImageBGR one_pixel 8)) = 1 \<and>
   KMeansPaletteSize (paletteSize (ClampedParams defaults))
     (int (rows (BuildBlockColorImageBGR one_pixel 8) * cols (BuildBlockColorImageBGR one_pixel 8))) = 2 \<and>
   Process cv_plain one_pixel defaults = Inl CvException"
  by (simp add: one_pixel_def defaults_def cv_plain_def Process_def ClampedParams_def
      PreBlur_def Quantize_def QuantizeWithKMeansLab_def BuildBlockColorImageBGR_def
      LabSamples_def KMeansPaletteSize_def ClampInt_def empty_Mat_def is_8UC3_def Let_def)

text \<open>
  C9. \<open>Process\<close> gives the same result on a parameter record and on the record
  with \<open>blockSize\<close> clamped to [1, 256], \<open>paletteSize\<close> to [2, 256] and
  \<open>outlineThickness\<close> to [1, 5]; in particular it fails on the one exactly when
  it fails on the other. The record is an argument of a function and is not
  changed.
\<close>

theorem C9_clamped_parameters:
  "Process cv img params =
   Process cv img (params\<lparr>blockSize := ClampInt (blockSize params) 1 256,
                          paletteSize := ClampInt (paletteSize params) 2 256,
                          outlineThickness := ClampInt (outlineThickness params) 1 5\<rparr>)"
proof -
  let ?q = "params\<lparr>blockSize := ClampInt (blockSize params) 1 256,
                     paletteSize := ClampInt (paletteSize params) 2 256,
                     outlineThickness := ClampInt (outlineThickness params) 1 5\<rparr>"
  have bs: "blockSize (ClampedParams ?q) = blockSize (ClampedParams params)"
    by (simp add: ClampedParams_def ClampInt_idem)
  have blur: "PreBlur cv (ClampedParams ?q) = PreBlur cv (ClampedParams params)"
    by (rule ext) (simp add: PreBlur_def ClampedParams_def ClampInt_idem)
  have quant: "Quantize cv (ClampedParams ?q) = Quantize cv (ClampedParams params)"
    by (rule ext) (simp add: Quantize_def ClampedParams_def ClampInt_idem)
  have post: "PostProcess cv (ClampedParams ?q) = PostProcess cv (ClampedParams params)"
    by (rule ext) (simp add: PostProcess_def ClampedParams_def ClampInt_idem Let_def)
  show ?thesis
    by (simp only: Process_def Let_def bs blur quant post)
qed

text \<open>
  C10. Quantising to a fixed palette twice gives what quantising once gives,
  and the nearest palette colour of a palette entry is that entry.
\<close>

theorem C10_QuantizeWithFixedPalette_idempotent:
  "QuantizeWithFixedPalette (QuantizeWithFixedPalette img preset) preset
     = QuantizeWithFixedPalette img preset \<and>
   (\<forall>c \<in> set (GetPaletteColors preset).
      FindNearestPaletteColor c (GetPaletteColors preset) = c)"
proof
  show "QuantizeWithFixedPalette (QuantizeWithFixedPalette img preset) preset
     = QuantizeWithFixedPalette img preset"
    by (rule QuantizeWithFixedPalette_twice)
  show "\<forall>c \<in> set (GetPaletteColors preset).
      FindNearestPaletteColor c (GetPaletteColors preset) = c"
    using NearestScan_fixes_palette_entry by (auto simp: FindNearestPaletteColor_def)
qed

theorem C10_witness:
  "(85, 255, 255) \<in> set (GetPaletteColors CGA) \<and>
   FindNearestPaletteColor (85, 255, 255) (GetPaletteColors CGA) = (85, 255, 255) \<and>
   QuantizeWithFixedPalette (QuantizeWithFixedPalette quadrants CGA) CGA
     = QuantizeWithFixedPalette quadrants CGA"
  using C10_QuantizeWithFixedPalette_idempotent [of quadrants CGA]
  by (simp add: GetPaletteColors_def)

end
